theory Spec2Isabelle
  imports Complex_Main
begin

section \<open>The data model (src/index.tsx, lines 5-28)\<close>

text \<open>
  The interfaces \<^verbatim>\<open>Customer\<close>, \<^verbatim>\<open>LineItem\<close> and \<^verbatim>\<open>Document\<close> become records. All three
  have a field \<^verbatim>\<open>id\<close>, which is also the name of HOL's identity function, so each
  \<^verbatim>\<open>id\<close> carries the name of its interface as a suffix. The TypeScript type \<^verbatim>\<open>number\<close>
  is the type parameter \<open>'n\<close>: the definitions use only \<open>0\<close>, \<open>+\<close> and \<open>*\<close> of it. The
  numbers of the program are the type \<open>double\<close> of the section on JavaScript numbers,
  at which the theorem on the totals is stated.
\<close>

record Customer =
  id_Customer :: string
  name :: string
  email :: string
  address :: string

record 'n LineItem =
  id_LineItem :: string
  description :: string
  quantity :: 'n
  unitPrice :: 'n

datatype DocumentType = Invoice | Quotation

record 'n Document =
  id_Document :: string
  customerId :: string
  type :: DocumentType
  date :: string
  lineItems :: "'n LineItem list"


section \<open>Totals (lines 79, 240 and 306)\<close>

text \<open>
  Line 306 shows \<^verbatim>\<open>item.quantity * item.unitPrice\<close> for each row of the table.
\<close>

definition lineTotal :: "('n::times) LineItem \<Rightarrow> 'n" where
  "lineTotal item = quantity item * unitPrice item"

text \<open>
  \<^verbatim>\<open>Array.prototype.reduce\<close> with a start value walks the array from index 0 upwards:
  it is \<open>foldl\<close>. \<^verbatim>\<open>calculateTotal\<close> is the Dashboard's function (line 79),
  \<^verbatim>\<open>total\<close> the memoised value of the Document Creator (line 240).
\<close>

definition calculateTotal :: "('n::{zero,plus,times}) LineItem list \<Rightarrow> 'n" where
  "calculateTotal items = foldl (\<lambda>acc item. acc + quantity item * unitPrice item) 0 items"

definition total_memo :: "('n::{zero,plus,times}) LineItem list \<Rightarrow> 'n" where
  "total_memo items = foldl (\<lambda>acc item. acc + quantity item * unitPrice item) 0 items"


section \<open>JavaScript numbers\<close>

text \<open>
  The quantities, unit prices and totals of the program are JavaScript numbers, that is
  IEEE 754 binary64 values: a finite value, an infinity or NaN. A finite value is a
  rational number \<open>m * 2 ^ e\<close> with a significand \<open>m\<close> below \<open>2 ^ 53\<close> and an exponent \<open>e\<close>
  from \<open>- 1074\<close> to \<open>971\<close>. The two zeros are one value here: they differ in no sum or
  product of finite values other than in the sign of a zero.
\<close>

datatype double = Finite rat | PosInf | NegInf | NaN

text \<open>
  \<open>bits n\<close> is the number of binary digits of \<open>n\<close>, and \<open>ilog2 x\<close> the exponent of the
  largest power of two that is at most \<open>x\<close>, for \<open>x\<close> above 0 (lemma \<open>ilog2_bounds\<close>).
\<close>

function bits :: "nat \<Rightarrow> nat" where
  "bits n = (if n = 0 then 0 else Suc (bits (n div 2)))"
  by pat_completeness auto
termination
  by (relation "measure (\<lambda>n. n)") auto

declare bits.simps [simp del]

definition ilog2 :: "rat \<Rightarrow> int" where
  "ilog2 x = (if 1 \<le> x then int (bits (nat \<lfloor>x\<rfloor>)) - 1
              else - int (bits (nat (\<lceil>1 / x\<rceil> - 1))))"

definition pow2 :: "int \<Rightarrow> rat" where
  "pow2 e = (if 0 \<le> e then 2 ^ nat e else 1 / 2 ^ nat (- e))"

text \<open>
  Rounding to the nearest integer, a tie to the even one.
\<close>

definition roundHalfEven :: "rat \<Rightarrow> int" where
  "roundHalfEven y =
     (let f = \<lfloor>y\<rfloor>; d = y - of_int f
      in if d < 1 / 2 then f else if 1 / 2 < d then f + 1 else if even f then f else f + 1)"

text \<open>
  \<open>fl x\<close> is the binary64 value of the real number \<open>x\<close>: \<open>x\<close> rounded to the nearest
  multiple of \<open>2 ^ e\<close>, where \<open>e\<close> leaves 53 bits for the significand and is at least
  \<open>- 1074\<close>, a tie to the even significand, and an infinity when the rounded value
  reaches \<open>2 ^ 1024\<close>.
\<close>

definition fl :: "rat \<Rightarrow> double" where
  "fl x =
     (if x = 0 then Finite 0
      else
        let e = max (ilog2 \<bar>x\<bar>) (- 1022) - 52;
            r = of_int (roundHalfEven (\<bar>x\<bar> / pow2 e)) * pow2 e
        in if 2 ^ 1024 \<le> r then (if 0 < x then PosInf else NegInf)
           else Finite (if 0 < x then r else - r))"

text \<open>
  The operators \<^verbatim>\<open>+\<close> and \<^verbatim>\<open>*\<close> of lines 79, 240 and 306 on these values: the exact
  result, rounded; NaN for a NaN operand, for the sum of the two infinities and for the
  product of zero and an infinity. The literal \<^verbatim>\<open>0\<close> of lines 79 and 240 is \<open>Finite 0\<close>.
\<close>

instantiation double :: "{zero,plus,times}"
begin

definition zero_double :: double where
  "zero_double = Finite 0"

fun plus_double :: "double \<Rightarrow> double \<Rightarrow> double" where
  "plus_double NaN y = NaN"
| "plus_double x NaN = NaN"
| "plus_double PosInf NegInf = NaN"
| "plus_double NegInf PosInf = NaN"
| "plus_double PosInf y = PosInf"
| "plus_double x PosInf = PosInf"
| "plus_double NegInf y = NegInf"
| "plus_double x NegInf = NegInf"
| "plus_double (Finite a) (Finite b) = fl (a + b)"

fun times_double :: "double \<Rightarrow> double \<Rightarrow> double" where
  "times_double NaN y = NaN"
| "times_double x NaN = NaN"
| "times_double PosInf PosInf = PosInf"
| "times_double PosInf NegInf = NegInf"
| "times_double NegInf PosInf = NegInf"
| "times_double NegInf NegInf = PosInf"
| "times_double PosInf (Finite b) = (if b = 0 then NaN else if 0 < b then PosInf else NegInf)"
| "times_double NegInf (Finite b) = (if b = 0 then NaN else if 0 < b then NegInf else PosInf)"
| "times_double (Finite a) PosInf = (if a = 0 then NaN else if 0 < a then PosInf else NegInf)"
| "times_double (Finite a) NegInf = (if a = 0 then NaN else if 0 < a then NegInf else PosInf)"
| "times_double (Finite a) (Finite b) = fl (a * b)"

instance ..

end

text \<open>
  A rational number is representable when it is a binary64 value, that is when rounding
  leaves it as it is.
\<close>

definition representable :: "rat \<Rightarrow> bool" where
  "representable x = (fl x = Finite x)"

text \<open>
  A line item with finite numbers, given by its identifier, description, quantity and
  unit price, and the product of the last two in exact arithmetic.
\<close>

definition finiteItem :: "string \<times> string \<times> rat \<times> rat \<Rightarrow> double LineItem" where
  "finiteItem row =
     (case row of (i, d, q, p) \<Rightarrow>
        \<lparr>id_LineItem = i, description = d, quantity = Finite q, unitPrice = Finite p\<rparr>)"

definition exactLineTotal :: "string \<times> string \<times> rat \<times> rat \<Rightarrow> rat" where
  "exactLineTotal row = (case row of (i, d, q, p) \<Rightarrow> q * p)"


section \<open>The browser: errors, effects, clock and storage\<close>

text \<open>
  What the code can throw or catch, as values: \<^verbatim>\<open>window.localStorage\<close> throws a
  SecurityError when the page may not use storage and \<^verbatim>\<open>setItem\<close> a QuotaExceededError
  when the quota is used up; \<^verbatim>\<open>JSON.parse\<close> throws a SyntaxError; reading a property of
  \<^verbatim>\<open>null\<close> and calling a value that is no function throw a TypeError; the request to the
  generative service rejects with an error of its own, here NetworkError.
\<close>

datatype error = SecurityError | QuotaExceededError | SyntaxError | TypeError | NetworkError

text \<open>
  The effects a handler has outside the values it returns, in the order it performs them:
  the calls of \<^verbatim>\<open>setIsLoading\<close>, the request \<^verbatim>\<open>ai.models.generateContent\<close> with its
  prompt, \<^verbatim>\<open>console.error\<close> and \<^verbatim>\<open>alert\<close>. An alert is the only message the user sees.
\<close>

datatype effect = SetIsLoading bool | GenerateContent string | ConsoleError error | Alert string

definition userVisibleErrors :: "effect list \<Rightarrow> string list" where
  "userVisibleErrors es = concat (map (\<lambda>e. case e of Alert m \<Rightarrow> [m] | _ \<Rightarrow> []) es)"

text \<open>
  \<^verbatim>\<open>Date.now()\<close> is a natural number, the milliseconds since the epoch, and
  \<^verbatim>\<open>Date.now().toString()\<close> its decimal digits.
\<close>

definition digit :: "nat \<Rightarrow> char" where
  "digit d = ''0123456789'' ! d"

function toString :: "nat \<Rightarrow> string" where
  "toString n = (if n < 10 then [digit n] else toString (n div 10) @ [digit (n mod 10)])"
  by pat_completeness auto
termination
  by (relation "measure (\<lambda>n. n)") auto

declare toString.simps [simp del]

text \<open>
  \<^verbatim>\<open>window.localStorage\<close>: the stored strings by key, whether the page is denied access
  to storage, and whether the browser refuses further writes.
\<close>

record localStorage =
  entries :: "string \<rightharpoonup> string"
  denied :: bool
  full :: bool

definition getItem :: "localStorage \<Rightarrow> string \<Rightarrow> error + string option" where
  "getItem ls key = (if denied ls then Inl SecurityError else Inr (entries ls key))"

definition setItem :: "localStorage \<Rightarrow> string \<Rightarrow> string \<Rightarrow> error + localStorage" where
  "setItem ls key v =
     (if denied ls then Inl SecurityError
      else if full ls then Inl QuotaExceededError
      else Inr (ls\<lparr>entries := (entries ls)(key \<mapsto> v)\<rparr>))"

text \<open>
  \<^verbatim>\<open>JSON.parse\<close> and \<^verbatim>\<open>JSON.stringify\<close> are the browser's. The hook is generic in
  the type of the stored value, so they are parameters of it: \<open>decode\<close> reads a text as
  a value, or fails, and \<open>encode\<close> writes a value as text. \<^verbatim>\<open>JSON.parse\<close> throws a
  SyntaxError on a text it cannot read, and the empty text is never JSON. The section on
  JSON text gives both for JSON values.
\<close>

definition JSON_parse :: "(string \<Rightarrow> 'a option) \<Rightarrow> string \<Rightarrow> error + 'a" where
  "JSON_parse decode s =
     (if s = [] then Inl SyntaxError
      else case decode s of None \<Rightarrow> Inl SyntaxError | Some v \<Rightarrow> Inr v)"


section \<open>The hook useLocalStorage (lines 38-60)\<close>

text \<open>
  The initialiser of \<^verbatim>\<open>useState\<close> (lines 39-47). A string is falsy exactly when it is
  empty, so \<^verbatim>\<open>item ? JSON.parse(item) : initialValue\<close> parses a stored string that is
  not empty. The result is the value of \<^verbatim>\<open>storedValue\<close> and what was logged.
\<close>

definition useLocalStorage_init ::
  "(string \<Rightarrow> 'a option) \<Rightarrow> localStorage \<Rightarrow> string \<Rightarrow> 'a \<Rightarrow> 'a \<times> effect list" where
  "useLocalStorage_init decode ls key initialValue =
     (case getItem ls key of
        Inl e \<Rightarrow> (initialValue, [ConsoleError e])
      | Inr item \<Rightarrow>
          (case item of
             None \<Rightarrow> (initialValue, [])
           | Some s \<Rightarrow>
               if s = [] then (initialValue, [])
               else (case JSON_parse decode s of
                       Inl e \<Rightarrow> (initialValue, [ConsoleError e])
                     | Inr v \<Rightarrow> (v, []))))"

text \<open>
  \<^verbatim>\<open>React.SetStateAction<T>\<close>: a value, or a function of the previous value.
\<close>

datatype 'a SetStateAction = Value 'a | Updater "'a \<Rightarrow> 'a"

text \<open>
  \<^verbatim>\<open>setValue\<close> (lines 49-57): the new \<^verbatim>\<open>storedValue\<close> is set before the write, so it
  stays when the write throws. The result is the new \<^verbatim>\<open>storedValue\<close>, the storage and
  what was logged.
\<close>

definition setValue ::
  "('a \<Rightarrow> string) \<Rightarrow> string \<Rightarrow> 'a SetStateAction \<Rightarrow> 'a \<Rightarrow> localStorage
     \<Rightarrow> 'a \<times> localStorage \<times> effect list" where
  "setValue encode key action storedValue ls =
     (let valueToStore = (case action of Updater f \<Rightarrow> f storedValue | Value v \<Rightarrow> v)
      in case setItem ls key (encode valueToStore) of
           Inl e \<Rightarrow> (valueToStore, ls, [ConsoleError e])
         | Inr ls' \<Rightarrow> (valueToStore, ls', []))"


section \<open>The application shell (lines 329-355)\<close>

record 'n App =
  activeView :: string
  customers :: "Customer list"
  documents :: "'n Document list"
  storage :: localStorage

definition setCustomers ::
  "(Customer list \<Rightarrow> string) \<Rightarrow> Customer list SetStateAction \<Rightarrow> 'n App \<Rightarrow> 'n App \<times> effect list" where
  "setCustomers encode action app =
     (case setValue encode ''gendocs_customers'' action (customers app) (storage app) of
        (v, ls, es) \<Rightarrow> (app\<lparr>customers := v, storage := ls\<rparr>, es))"

definition setDocuments ::
  "('n Document list \<Rightarrow> string) \<Rightarrow> 'n Document list SetStateAction \<Rightarrow> 'n App
     \<Rightarrow> 'n App \<times> effect list" where
  "setDocuments encode action app =
     (case setValue encode ''gendocs_documents'' action (documents app) (storage app) of
        (v, ls, es) \<Rightarrow> (app\<lparr>documents := v, storage := ls\<rparr>, es))"

definition setActiveView :: "string \<Rightarrow> 'n App \<Rightarrow> 'n App" where
  "setActiveView view app = app\<lparr>activeView := view\<rparr>"


section \<open>The Customer Manager (lines 134-145)\<close>

text \<open>
  The three \<^verbatim>\<open>useState\<close> variables of the form; their names carry the suffix \<open>_st\<close>,
  the fields of \<^verbatim>\<open>Customer\<close> having the same names.
\<close>

record CustomerManager =
  name_st :: string
  email_st :: string
  address_st :: string

text \<open>
  \<^verbatim>\<open>handleSubmit\<close> (lines 139-145), with the value \<open>now\<close> of \<^verbatim>\<open>Date.now()\<close>.
\<close>

definition handleSubmit ::
  "(Customer list \<Rightarrow> string) \<Rightarrow> nat \<Rightarrow> CustomerManager \<Rightarrow> 'n App
     \<Rightarrow> CustomerManager \<times> 'n App \<times> effect list" where
  "handleSubmit encode now form app =
     (if name_st form = [] \<or> email_st form = [] then (form, app, [])
      else
        let newCustomer = \<lparr>id_Customer = toString now, name = name_st form,
              email = email_st form, address = address_st form\<rparr>
        in case setCustomers encode (Updater (\<lambda>prev. prev @ [newCustomer])) app of
             (app', es) \<Rightarrow> (\<lparr>name_st = [], email_st = [], address_st = []\<rparr>, app', es))"



section \<open>The Document Creator: the draft and its edits (lines 174-185, 234-238)\<close>

text \<open>
  The five \<^verbatim>\<open>useState\<close> variables of the component. \<^verbatim>\<open>type\<close>, \<^verbatim>\<open>customerId\<close> and
  \<^verbatim>\<open>lineItems\<close> are also fields of \<^verbatim>\<open>Document\<close>, so here they carry the suffix \<open>_st\<close>.
  The type of the line items is the parameter \<open>'i\<close>. The source declares it as
  \<^verbatim>\<open>LineItem[]\<close>, and the edits and \<^verbatim>\<open>saveDocument\<close> below take the draft at that type;
  \<^verbatim>\<open>handleGenerateWithAI\<close> sets whatever objects the response gives, checked by no
  one, so after it the line items are objects as \<^verbatim>\<open>JSON.parse\<close> builds them.
\<close>

record 'i DocumentCreator =
  type_st :: DocumentType
  customerId_st :: string
  lineItems_st :: "'i list"
  aiPrompt :: string
  isLoading :: bool

definition DocumentCreator_init :: "'i DocumentCreator" where
  "DocumentCreator_init =
     \<lparr>type_st = Invoice, customerId_st = [], lineItems_st = [], aiPrompt = [], isLoading = False\<rparr>"

text \<open>The effect of lines 181-185: the first customer is selected when none is.\<close>

definition selectDefaultCustomer :: "Customer list \<Rightarrow> 'i DocumentCreator \<Rightarrow> 'i DocumentCreator" where
  "selectDefaultCustomer cs c =
     (case cs of
        [] \<Rightarrow> c
      | first # _ \<Rightarrow> if customerId_st c = [] then c\<lparr>customerId_st := id_Customer first\<rparr> else c)"

text \<open>\<^verbatim>\<open>addLineItem\<close> (line 234), with the value \<open>now\<close> of \<^verbatim>\<open>Date.now()\<close>.\<close>

definition addLineItem ::
  "nat \<Rightarrow> ('n::{zero,one}) LineItem DocumentCreator \<Rightarrow> 'n LineItem DocumentCreator" where
  "addLineItem now c =
     c\<lparr>lineItems_st := lineItems_st c @
          [\<lparr>id_LineItem = toString now, description = [], quantity = 1, unitPrice = 0\<rparr>]\<rparr>"

text \<open>\<^verbatim>\<open>removeLineItem\<close> (line 235).\<close>

definition removeLineItem ::
  "string \<Rightarrow> 'n LineItem DocumentCreator \<Rightarrow> 'n LineItem DocumentCreator" where
  "removeLineItem ident c =
     c\<lparr>lineItems_st := filter (\<lambda>item. id_LineItem item \<noteq> ident) (lineItems_st c)\<rparr>"

text \<open>
  \<^verbatim>\<open>updateLineItem\<close> (lines 236-238) takes a field name other than \<^verbatim>\<open>id\<close> and a value.
  A field comes here with a value of the type that \<^verbatim>\<open>LineItem\<close> gives the field, as at the
  three places that call the function (lines 303-305): a string for the description, a
  number for the quantity and for the unit price. \<open>withField\<close> is the object
  \<^verbatim>\<open>{...item, [field]: value}\<close>.
\<close>

datatype 'n FieldValue = Description string | Quantity 'n | UnitPrice 'n

fun withField :: "'n LineItem \<Rightarrow> 'n FieldValue \<Rightarrow> 'n LineItem" where
  "withField item (Description s) = item\<lparr>description := s\<rparr>"
| "withField item (Quantity q) = item\<lparr>quantity := q\<rparr>"
| "withField item (UnitPrice u) = item\<lparr>unitPrice := u\<rparr>"

definition updateLineItem ::
  "string \<Rightarrow> 'n FieldValue \<Rightarrow> 'n LineItem DocumentCreator \<Rightarrow> 'n LineItem DocumentCreator" where
  "updateLineItem ident fv c =
     c\<lparr>lineItems_st :=
          map (\<lambda>item. if id_LineItem item = ident then withField item fv else item) (lineItems_st c)\<rparr>"


section \<open>Saving (lines 242-256)\<close>

text \<open>
  \<^verbatim>\<open>saveDocument\<close>, with the value \<open>now\<close> of \<^verbatim>\<open>Date.now()\<close> and the text \<open>isoText\<close> that
  \<^verbatim>\<open>new Date().toISOString()\<close> returns. \<^verbatim>\<open>!customerId\<close> holds exactly of the empty string.
\<close>

definition saveDocument ::
  "('n Document list \<Rightarrow> string) \<Rightarrow> nat \<Rightarrow> string \<Rightarrow> 'n LineItem DocumentCreator \<Rightarrow> 'n App
     \<Rightarrow> 'n App \<times> effect list" where
  "saveDocument encode now isoText c app =
     (if customerId_st c = [] \<or> length (lineItems_st c) = 0
      then (app, [Alert ''Please select a customer and add at least one line item.''])
      else
        let newDoc = \<lparr>id_Document = toString now, customerId = customerId_st c,
              type = type_st c, date = isoText, lineItems = lineItems_st c\<rparr>
        in case setDocuments encode (Updater (\<lambda>prev. prev @ [newDoc])) app of
             (app', es) \<Rightarrow> (setActiveView ''dashboard'' app', es))"


section \<open>Generating line items (lines 187-232)\<close>

text \<open>
  What \<^verbatim>\<open>JSON.parse\<close> returns is a JSON value. An object is the list of its properties;
  the first entry of a name counts.
\<close>

datatype 'n json =
    JNull | JBool bool | JNum 'n | JStr string
  | JArr "'n json list" | JObj "(string \<times> 'n json) list"

text \<open>
  Lines 213-222: the request rejects, or it resolves and \<^verbatim>\<open>JSON.parse(response.text)\<close>
  throws, or it resolves and the text parses.
\<close>

datatype 'n generateContent = Rejects | Unparseable | Parses "'n json"

text \<open>The values that count as true in a condition.\<close>

fun truthy :: "('n::zero) json \<Rightarrow> bool" where
  "truthy JNull = False"
| "truthy (JBool b) = b"
| "truthy (JNum n) = (n \<noteq> 0)"
| "truthy (JStr s) = (s \<noteq> [])"
| "truthy (JArr xs) = True"
| "truthy (JObj ps) = True"

text \<open>
  \<^verbatim>\<open>result.lineItems\<close>: a TypeError on \<^verbatim>\<open>null\<close>, the property of an object if it has
  one, and \<^verbatim>\<open>undefined\<close> (here \<open>None\<close>) otherwise.
\<close>

fun lineItems_of :: "'n json \<Rightarrow> error + 'n json option" where
  "lineItems_of JNull = Inl TypeError"
| "lineItems_of (JObj ps) = Inr (map_of ps ''lineItems'')"
| "lineItems_of other = Inr None"

text \<open>
  An object as the program holds it: the list of its properties, of which the first
  entry of a name counts.
\<close>

type_synonym 'n object = "(string \<times> 'n json) list"

text \<open>
  What \<^verbatim>\<open>{...item}\<close> copies, the own enumerable properties of the value: those of an
  object; the elements of an array and the characters of a string under their indices;
  nothing of \<^verbatim>\<open>null\<close>, a boolean or a number.
\<close>

fun ownProperties :: "'n json \<Rightarrow> 'n object" where
  "ownProperties (JObj ps) = ps"
| "ownProperties (JArr xs) = zip (map toString [0..<length xs]) xs"
| "ownProperties (JStr s) = zip (map toString [0..<length s]) (map (\<lambda>ch. JStr [ch]) s)"
| "ownProperties other = []"

text \<open>
  A property written in an object literal after a spread replaces the value of a
  property of that name and keeps its place, or else is added at the end.
\<close>

definition setProperty :: "string \<Rightarrow> 'n json \<Rightarrow> 'n object \<Rightarrow> 'n object" where
  "setProperty k v ps =
     (if k \<in> set (map fst ps) then map (\<lambda>p. if fst p = k then (k, v) else p) ps
      else ps @ [(k, v)])"

text \<open>
  The identifier of line 224, \<^verbatim>\<open>Date.now().toString() + Math.random()\<close>, from the value
  of \<^verbatim>\<open>Date.now()\<close> and the text that the value of \<^verbatim>\<open>Math.random()\<close> becomes when it
  is appended to a string.
\<close>

definition newId :: "nat \<times> string \<Rightarrow> string" where
  "newId draw = toString (fst draw) @ snd draw"

text \<open>
  The text of a number \<open>x\<close> with \<open>0 \<le> x < 1\<close>, which is what \<^verbatim>\<open>Math.random()\<close> returns, is
  \<^verbatim>\<open>0\<close>, or \<^verbatim>\<open>0.\<close> and digits, or, for a small number, one digit and then a fraction
  or an exponent such as \<^verbatim>\<open>e-7\<close>: a digit that is not followed by a second digit.
\<close>

definition isDigit :: "char \<Rightarrow> bool" where
  "isDigit ch = (ch \<in> set ''0123456789'')"

fun randomText :: "string \<Rightarrow> bool" where
  "randomText [] = False"
| "randomText [d] = isDigit d"
| "randomText (d # x # rest) = (isDigit d \<and> \<not> isDigit x)"

text \<open>The object \<^verbatim>\<open>{...item, id: ...}\<close> of line 224.\<close>

definition itemWithId :: "'n json \<Rightarrow> string \<Rightarrow> 'n object" where
  "itemWithId item ident = setProperty ''id'' (JStr ident) (ownProperties item)"

text \<open>
  \<^verbatim>\<open>result.lineItems.map(item => ({...item, id: ...}))\<close>, from index \<open>i\<close> on: \<open>draws j\<close>
  is what \<^verbatim>\<open>Date.now()\<close> and \<^verbatim>\<open>Math.random()\<close> return when the function is called for
  the element at index \<open>j\<close>. No element is checked.
\<close>

fun mapWithIds :: "(nat \<Rightarrow> nat \<times> string) \<Rightarrow> nat \<Rightarrow> 'n json list \<Rightarrow> 'n object list" where
  "mapWithIds draws i [] = []"
| "mapWithIds draws i (x # xs) = itemWithId x (newId (draws i)) # mapWithIds draws (Suc i) xs"

text \<open>
  The \<^verbatim>\<open>try\<close> block after the request (lines 213-225) ends in one of three ways: it
  throws, it leaves the draft alone, or it calls \<^verbatim>\<open>setLineItems\<close>. A truthy
  \<^verbatim>\<open>lineItems\<close> that is no array has no method \<^verbatim>\<open>map\<close>, and calling it throws a
  TypeError.
\<close>

datatype 'n tryResult = Throws error | NoUpdate | SetLineItems "'n object list"

definition tryBlock :: "(nat \<Rightarrow> nat \<times> string) \<Rightarrow> ('n::zero) generateContent \<Rightarrow> 'n tryResult" where
  "tryBlock draws response =
     (case response of
        Rejects \<Rightarrow> Throws NetworkError
      | Unparseable \<Rightarrow> Throws SyntaxError
      | Parses result \<Rightarrow>
          (case lineItems_of result of
             Inl e \<Rightarrow> Throws e
           | Inr None \<Rightarrow> NoUpdate
           | Inr (Some v) \<Rightarrow>
               if \<not> truthy v then NoUpdate
               else (case v of
                       JArr xs \<Rightarrow> SetLineItems (mapWithIds draws 0 xs)
                     | _ \<Rightarrow> Throws TypeError)))"

definition DocumentType_text :: "DocumentType \<Rightarrow> string" where
  "DocumentType_text t = (case t of Invoice \<Rightarrow> ''Invoice'' | Quotation \<Rightarrow> ''Quotation'')"

definition fullPrompt :: "DocumentType \<Rightarrow> string \<Rightarrow> string" where
  "fullPrompt t prompt =
     ''Generate a list of line items for a '' @ DocumentType_text t
     @ '' based on the following request: '' @ [CHR 0x22] @ prompt @ [CHR 0x22]
     @ ''. Provide realistic quantities and prices.''"

text \<open>
  \<^verbatim>\<open>setLineItems\<close> with a new array: the other four variables stay.
\<close>

definition setLineItems :: "'j list \<Rightarrow> 'i DocumentCreator \<Rightarrow> 'j DocumentCreator" where
  "setLineItems newItems c =
     \<lparr>type_st = type_st c, customerId_st = customerId_st c, lineItems_st = newItems,
      aiPrompt = aiPrompt c, isLoading = isLoading c\<rparr>"

text \<open>
  The draft after \<^verbatim>\<open>handleGenerateWithAI\<close>: with the line items it had, or with the
  objects that the handler has set.
\<close>

datatype ('i, 'n) generated = Kept "'i DocumentCreator" | Replaced "'n object DocumentCreator"

text \<open>
  \<^verbatim>\<open>handleGenerateWithAI\<close>, run from the click to the end of its \<^verbatim>\<open>finally\<close> block with
  no other event in between. The result is the draft and the effects in their order.
\<close>

definition handleGenerateWithAI ::
  "(nat \<Rightarrow> nat \<times> string) \<Rightarrow> ('n::zero) generateContent \<Rightarrow> 'i DocumentCreator
     \<Rightarrow> ('i, 'n) generated \<times> effect list" where
  "handleGenerateWithAI draws response c =
     (if aiPrompt c = [] then (Kept c, [])
      else
        let started = [SetIsLoading True, GenerateContent (fullPrompt (type_st c) (aiPrompt c))]
        in case tryBlock draws response of
             Throws e \<Rightarrow>
               (Kept (c\<lparr>isLoading := False\<rparr>),
                 started @ [ConsoleError e,
                   Alert ''Sorry, there was an error generating the items. Please try again.'',
                   SetIsLoading False])
           | NoUpdate \<Rightarrow> (Kept (c\<lparr>isLoading := False\<rparr>), started @ [SetIsLoading False])
           | SetLineItems objects \<Rightarrow>
               (Replaced (setLineItems objects (c\<lparr>isLoading := False\<rparr>)),
                 started @ [SetIsLoading False]))"

text \<open>
  An object read at the type \<^verbatim>\<open>LineItem\<close>: it has a string \<^verbatim>\<open>id\<close>, a string
  \<^verbatim>\<open>description\<close> and numbers \<^verbatim>\<open>quantity\<close> and \<^verbatim>\<open>unitPrice\<close>. The draft read at the
  type that the source declares: a draft of objects is one of line items when each of its
  objects is a \<^verbatim>\<open>LineItem\<close>.
\<close>

definition asLineItem :: "'n object \<Rightarrow> 'n LineItem option" where
  "asLineItem ps =
     (case map_of ps ''id'' of
        Some (JStr i) \<Rightarrow>
          (case map_of ps ''description'' of
             Some (JStr d) \<Rightarrow>
               (case map_of ps ''quantity'' of
                  Some (JNum q) \<Rightarrow>
                    (case map_of ps ''unitPrice'' of
                       Some (JNum u) \<Rightarrow>
                         Some \<lparr>id_LineItem = i, description = d, quantity = q, unitPrice = u\<rparr>
                     | _ \<Rightarrow> None)
                | _ \<Rightarrow> None)
           | _ \<Rightarrow> None)
      | _ \<Rightarrow> None)"

fun asLineItems :: "'n object list \<Rightarrow> 'n LineItem list option" where
  "asLineItems [] = Some []"
| "asLineItems (ob # obs) =
     (case asLineItem ob of
        None \<Rightarrow> None
      | Some item \<Rightarrow>
          (case asLineItems obs of None \<Rightarrow> None | Some items \<Rightarrow> Some (item # items)))"

definition typedDraft :: "('n LineItem, 'n) generated \<Rightarrow> 'n LineItem DocumentCreator option" where
  "typedDraft g =
     (case g of
        Kept c \<Rightarrow> Some c
      | Replaced d \<Rightarrow>
          (case asLineItems (lineItems_st d) of
             None \<Rightarrow> None
           | Some items \<Rightarrow> Some (setLineItems items d)))"

text \<open>
  The condition of C4 on an element of the array: it is a record with a string
  \<^verbatim>\<open>description\<close> and numbers \<^verbatim>\<open>quantity\<close> and \<^verbatim>\<open>unitPrice\<close>. \<open>withId\<close> is the line item
  of such a record and an identifier.
\<close>

fun recordFields :: "'n json \<Rightarrow> (string \<times> 'n \<times> 'n) option" where
  "recordFields (JObj ps) =
     (case map_of ps ''description'' of
        Some (JStr d) \<Rightarrow>
          (case map_of ps ''quantity'' of
             Some (JNum q) \<Rightarrow>
               (case map_of ps ''unitPrice'' of
                  Some (JNum u) \<Rightarrow> Some (d, q, u)
                | _ \<Rightarrow> None)
           | _ \<Rightarrow> None)
      | _ \<Rightarrow> None)"
| "recordFields other = None"

definition withId :: "string \<times> 'n \<times> 'n \<Rightarrow> string \<Rightarrow> 'n LineItem" where
  "withId raw ident =
     (case raw of (d, q, u) \<Rightarrow>
        \<lparr>id_LineItem = ident, description = d, quantity = q, unitPrice = u\<rparr>)"



section \<open>JSON text: what is written to the storage and read from it\<close>

text \<open>
  Line 52 writes \<^verbatim>\<open>JSON.stringify(valueToStore)\<close> and line 42 reads
  \<^verbatim>\<open>JSON.parse(item)\<close>. Both are the browser's; this section gives them for the JSON
  values of the section before, following ECMA-262 (\<^verbatim>\<open>JSON.stringify\<close> without indent
  and \<^verbatim>\<open>JSON.parse\<close> without reviver). A string is a list of characters with codes
  below 256, so an escape of four hexadecimal digits from 0100 on has no character here
  and the reader refuses it. The text of a number and the number of a text are parameters,
  \<open>nt\<close> and \<open>rn\<close>.

  \<^verbatim>\<open>QuoteJSONString\<close>: the quotation mark and the backslash get a backslash, the control
  characters their short escape or the escape of four hexadecimal digits in lower case,
  and every other character is written as it is.
\<close>

definition hexDigit :: "nat \<Rightarrow> char" where
  "hexDigit n = ''0123456789abcdef'' ! n"

definition escapeChar :: "char \<Rightarrow> string" where
  "escapeChar c =
     (if c = CHR 0x22 then [CHR 0x5C, CHR 0x22]
      else if c = CHR 0x5C then [CHR 0x5C, CHR 0x5C]
      else if c = CHR 0x08 then [CHR 0x5C, CHR ''b'']
      else if c = CHR 0x0C then [CHR 0x5C, CHR ''f'']
      else if c = CHR 0x0A then [CHR 0x5C, CHR ''n'']
      else if c = CHR 0x0D then [CHR 0x5C, CHR ''r'']
      else if c = CHR 0x09 then [CHR 0x5C, CHR ''t'']
      else if of_char c < (32 :: nat)
        then [CHR 0x5C, CHR ''u'', CHR ''0'', CHR ''0'',
              hexDigit (of_char c div 16), hexDigit (of_char c mod 16)]
      else [c])"

definition quote :: "string \<Rightarrow> string" where
  "quote s = CHR 0x22 # concat (map escapeChar s) @ [CHR 0x22]"

text \<open>
  \<^verbatim>\<open>JSON.stringify\<close> writes the elements of an array and the properties of an object
  in their order, separated by commas, with no white space.
\<close>

fun stringify :: "('n \<Rightarrow> string) \<Rightarrow> 'n json \<Rightarrow> string"
  and stringifyElements :: "('n \<Rightarrow> string) \<Rightarrow> 'n json list \<Rightarrow> string"
  and stringifyMembers :: "('n \<Rightarrow> string) \<Rightarrow> (string \<times> 'n json) list \<Rightarrow> string" where
  "stringify nt JNull = ''null''"
| "stringify nt (JBool b) = (if b then ''true'' else ''false'')"
| "stringify nt (JNum n) = nt n"
| "stringify nt (JStr s) = quote s"
| "stringify nt (JArr xs) = ''['' @ stringifyElements nt xs @ '']''"
| "stringify nt (JObj ps) = ''{'' @ stringifyMembers nt ps @ ''}''"
| "stringifyElements nt [] = []"
| "stringifyElements nt (x # xs) =
     stringify nt x @ (if xs = [] then [] else '','' @ stringifyElements nt xs)"
| "stringifyMembers nt [] = []"
| "stringifyMembers nt (p # ps) =
     quote (fst p) @ '':'' @ stringify nt (snd p)
       @ (if ps = [] then [] else '','' @ stringifyMembers nt ps)"

text \<open>
  \<^verbatim>\<open>JSON.stringify\<close> writes a finite number as its text and every other number as
  \<^verbatim>\<open>null\<close>.
\<close>

definition numberText :: "(rat \<Rightarrow> string) \<Rightarrow> double \<Rightarrow> string" where
  "numberText finiteText d =
     (case d of Finite r \<Rightarrow> finiteText r | PosInf \<Rightarrow> ''null'' | NegInf \<Rightarrow> ''null'' | NaN \<Rightarrow> ''null'')"

text \<open>
  The reader. White space is the space, the tab, the line feed and the carriage return.
  \<open>parseChars\<close> reads the characters of a string up to the closing quotation mark; a
  control character that is not escaped and an unknown escape are errors.
\<close>

definition isWs :: "char \<Rightarrow> bool" where
  "isWs c = (c = CHR 0x20 \<or> c = CHR 0x09 \<or> c = CHR 0x0A \<or> c = CHR 0x0D)"

definition skipWs :: "string \<Rightarrow> string" where
  "skipWs s = dropWhile isWs s"

definition hexValue :: "char \<Rightarrow> nat option" where
  "hexValue c =
     (if isDigit c then Some (of_char c - 48)
      else if c \<in> set ''abcdef'' then Some (of_char c - 87)
      else if c \<in> set ''ABCDEF'' then Some (of_char c - 55)
      else None)"

definition simpleEscape :: "char \<Rightarrow> char option" where
  "simpleEscape e =
     (if e = CHR 0x22 then Some (CHR 0x22)
      else if e = CHR 0x5C then Some (CHR 0x5C)
      else if e = CHR ''/'' then Some (CHR ''/'')
      else if e = CHR ''b'' then Some (CHR 0x08)
      else if e = CHR ''f'' then Some (CHR 0x0C)
      else if e = CHR ''n'' then Some (CHR 0x0A)
      else if e = CHR ''r'' then Some (CHR 0x0D)
      else if e = CHR ''t'' then Some (CHR 0x09)
      else None)"

definition hex4 :: "char \<Rightarrow> char \<Rightarrow> char \<Rightarrow> char \<Rightarrow> nat option" where
  "hex4 h1 h2 h3 h4 =
     (case hexValue h1 of None \<Rightarrow> None | Some a \<Rightarrow>
      case hexValue h2 of None \<Rightarrow> None | Some b \<Rightarrow>
      case hexValue h3 of None \<Rightarrow> None | Some c \<Rightarrow>
      case hexValue h4 of None \<Rightarrow> None | Some d \<Rightarrow>
        Some (((a * 16 + b) * 16 + c) * 16 + d))"

fun parseChars :: "string \<Rightarrow> (string \<times> string) option" where
  "parseChars [] = None"
| "parseChars (c # cs) =
     (if c = CHR 0x22 then Some ([], cs)
      else if c = CHR 0x5C then
        (case cs of
           [] \<Rightarrow> None
         | e # es \<Rightarrow>
             if e = CHR ''u'' then
               (case es of
                  h1 # h2 # h3 # h4 # rest \<Rightarrow>
                    (case hex4 h1 h2 h3 h4 of
                       None \<Rightarrow> None
                     | Some n \<Rightarrow>
                         if n < 256 then
                           (case parseChars rest of
                              None \<Rightarrow> None
                            | Some (s, r) \<Rightarrow> Some (char_of n # s, r))
                         else None)
                | _ \<Rightarrow> None)
             else
               (case simpleEscape e of
                  None \<Rightarrow> None
                | Some ch \<Rightarrow>
                    (case parseChars es of
                       None \<Rightarrow> None
                     | Some (s, r) \<Rightarrow> Some (ch # s, r))))
      else if of_char c < (32 :: nat) then None
      else (case parseChars cs of None \<Rightarrow> None | Some (s, r) \<Rightarrow> Some (c # s, r)))"

text \<open>
  The grammar of a JSON number: an optional minus sign, an integer part without a
  leading zero, an optional fraction and an optional exponent.
\<close>

definition numChar :: "char \<Rightarrow> bool" where
  "numChar c = (isDigit c \<or> c \<in> set ''+-.eE'')"

definition exponentPart :: "string \<Rightarrow> bool" where
  "exponentPart s =
     (case s of
        [] \<Rightarrow> True
      | e # t \<Rightarrow>
          (e = CHR ''e'' \<or> e = CHR ''E'')
          \<and> (case t of
                [] \<Rightarrow> False
              | c # u \<Rightarrow>
                  if c = CHR ''+'' \<or> c = CHR ''-'' then u \<noteq> [] \<and> list_all isDigit u
                  else list_all isDigit t))"

definition fractionPart :: "string \<Rightarrow> bool" where
  "fractionPart s =
     (case s of
        [] \<Rightarrow> True
      | c # t \<Rightarrow>
          if c = CHR ''.'' then takeWhile isDigit t \<noteq> [] \<and> exponentPart (dropWhile isDigit t)
          else exponentPart s)"

definition isNumberText :: "string \<Rightarrow> bool" where
  "isNumberText s =
     (let u = (case s of [] \<Rightarrow> [] | c # t \<Rightarrow> if c = CHR ''-'' then t else s);
          ds = takeWhile isDigit u
      in ds \<noteq> [] \<and> (length ds = 1 \<or> hd ds \<noteq> CHR ''0'') \<and> fractionPart (dropWhile isDigit u))"

text \<open>
  The values, by recursive descent. The first argument after \<open>rn\<close> bounds the depth
  of the recursion and \<open>None\<close> is the SyntaxError. A property name that occurs again
  keeps its place and takes the later value. \<open>decodeJSON\<close> reads one value and then
  only white space, with a depth that the texts written by \<open>stringify\<close> do not reach
  (lemma \<open>parse_stringify\<close>).
\<close>

fun parseValue :: "(string \<Rightarrow> 'n) \<Rightarrow> nat \<Rightarrow> string \<Rightarrow> ('n json \<times> string) option"
  and parseElements :: "(string \<Rightarrow> 'n) \<Rightarrow> nat \<Rightarrow> string \<Rightarrow> ('n json list \<times> string) option"
  and parseMembers :: "(string \<Rightarrow> 'n) \<Rightarrow> nat \<Rightarrow> string \<Rightarrow> ((string \<times> 'n json) list \<times> string) option"
  where
  "parseValue rn 0 s = None"
| "parseValue rn (Suc f) s =
     (case skipWs s of
        [] \<Rightarrow> None
      | c # cs \<Rightarrow>
          if c = CHR 0x22 then
            (case parseChars cs of None \<Rightarrow> None | Some (str, rest) \<Rightarrow> Some (JStr str, rest))
          else if c = CHR ''['' then
            (case skipWs cs of
               [] \<Rightarrow> None
             | d # rest \<Rightarrow>
                 if d = CHR '']'' then Some (JArr [], rest)
                 else (case parseElements rn f cs of
                         None \<Rightarrow> None
                       | Some (xs, rest') \<Rightarrow> Some (JArr xs, rest')))
          else if c = CHR ''{'' then
            (case skipWs cs of
               [] \<Rightarrow> None
             | d # rest \<Rightarrow>
                 if d = CHR ''}'' then Some (JObj [], rest)
                 else (case parseMembers rn f cs of
                         None \<Rightarrow> None
                       | Some (ms, rest') \<Rightarrow> Some (JObj ms, rest')))
          else if take 4 (c # cs) = ''null'' then Some (JNull, drop 4 (c # cs))
          else if take 4 (c # cs) = ''true'' then Some (JBool True, drop 4 (c # cs))
          else if take 5 (c # cs) = ''false'' then Some (JBool False, drop 5 (c # cs))
          else if isNumberText (takeWhile numChar (c # cs))
            then Some (JNum (rn (takeWhile numChar (c # cs))), dropWhile numChar (c # cs))
          else None)"
| "parseElements rn 0 s = None"
| "parseElements rn (Suc f) s =
     (case parseValue rn f s of
        None \<Rightarrow> None
      | Some (v, rest) \<Rightarrow>
          (case skipWs rest of
             [] \<Rightarrow> None
           | d # rest' \<Rightarrow>
               if d = CHR '','' then
                 (case parseElements rn f rest' of
                    None \<Rightarrow> None
                  | Some (vs, r) \<Rightarrow> Some (v # vs, r))
               else if d = CHR '']'' then Some ([v], rest')
               else None))"
| "parseMembers rn 0 s = None"
| "parseMembers rn (Suc f) s =
     (case skipWs s of
        [] \<Rightarrow> None
      | q # cs \<Rightarrow>
          if q \<noteq> CHR 0x22 then None
          else
            (case parseChars cs of
               None \<Rightarrow> None
             | Some (k, rest) \<Rightarrow>
                 (case skipWs rest of
                    [] \<Rightarrow> None
                  | colon # rest1 \<Rightarrow>
                      if colon \<noteq> CHR '':'' then None
                      else
                        (case parseValue rn f rest1 of
                           None \<Rightarrow> None
                         | Some (v, rest2) \<Rightarrow>
                             (case skipWs rest2 of
                                [] \<Rightarrow> None
                              | d # rest3 \<Rightarrow>
                                  if d = CHR '','' then
                                    (case parseMembers rn f rest3 of
                                       None \<Rightarrow> None
                                     | Some (ms, r) \<Rightarrow>
                                         Some ((k, case map_of ms k of None \<Rightarrow> v | Some v' \<Rightarrow> v')
                                               # filter (\<lambda>m. fst m \<noteq> k) ms, r))
                                  else if d = CHR ''}'' then Some ([(k, v)], rest3)
                                  else None)))))"

definition decodeJSON :: "(string \<Rightarrow> 'n) \<Rightarrow> string \<Rightarrow> 'n json option" where
  "decodeJSON rn s =
     (case parseValue rn (Suc (2 * length s)) s of
        None \<Rightarrow> None
      | Some (v, rest) \<Rightarrow> if skipWs rest = [] then Some v else None)"

text \<open>
  A customer as the JSON value of the object that line 143 builds, with the properties
  in the order of the object literal, and a collection of customers as the array of
  its customers.
\<close>

definition json_of_customer :: "Customer \<Rightarrow> 'n json" where
  "json_of_customer c =
     JObj [(''id'', JStr (id_Customer c)), (''name'', JStr (name c)),
           (''email'', JStr (email c)), (''address'', JStr (address c))]"

definition json_of_customers :: "Customer list \<Rightarrow> 'n json" where
  "json_of_customers cs = JArr (map json_of_customer cs)"

text \<open>
  The values that the text written for them gives back: every number in them has a
  text that is a JSON number and is read as that number, and no object has a property
  name twice, as no object of the program has.
\<close>

fun readsBack :: "('n \<Rightarrow> string) \<Rightarrow> (string \<Rightarrow> 'n) \<Rightarrow> 'n json \<Rightarrow> bool"
  and readsBackElements :: "('n \<Rightarrow> string) \<Rightarrow> (string \<Rightarrow> 'n) \<Rightarrow> 'n json list \<Rightarrow> bool"
  and readsBackMembers :: "('n \<Rightarrow> string) \<Rightarrow> (string \<Rightarrow> 'n) \<Rightarrow> (string \<times> 'n json) list \<Rightarrow> bool"
  where
  "readsBack nt rn JNull = True"
| "readsBack nt rn (JBool b) = True"
| "readsBack nt rn (JNum n) = (isNumberText (nt n) \<and> list_all numChar (nt n) \<and> rn (nt n) = n)"
| "readsBack nt rn (JStr s) = True"
| "readsBack nt rn (JArr xs) = readsBackElements nt rn xs"
| "readsBack nt rn (JObj ps) = (distinct (map fst ps) \<and> readsBackMembers nt rn ps)"
| "readsBackElements nt rn [] = True"
| "readsBackElements nt rn (x # xs) = (readsBack nt rn x \<and> readsBackElements nt rn xs)"
| "readsBackMembers nt rn [] = True"
| "readsBackMembers nt rn (p # ps) = (readsBack nt rn (snd p) \<and> readsBackMembers nt rn ps)"

text \<open>
  The first character of a written value is no white space and closes no array and no
  object; a text that follows a written number does not continue it.
\<close>

definition firstOfValue :: "char \<Rightarrow> bool" where
  "firstOfValue c = (\<not> isWs c \<and> c \<noteq> CHR '']'' \<and> c \<noteq> CHR ''}'')"

definition endsNumber :: "string \<Rightarrow> bool" where
  "endsNumber rest = (case rest of [] \<Rightarrow> True | c # t \<Rightarrow> \<not> numChar c)"


section \<open>Example values\<close>

text \<open>
  The values at which the theorems below are instantiated: a customer, a reader and a
  writer of collections of customers that know the empty collection and the collection of
  that one customer, an application with that customer and an empty store, a draft with
  one line item, and a response of the generative service with two.
\<close>

definition example_customer :: Customer where
  "example_customer =
     \<lparr>id_Customer = ''c1'', name = ''Ada'', email = ''ada@example.org'', address = []\<rparr>"

definition example_encode :: "Customer list \<Rightarrow> string" where
  "example_encode cs = (if cs = [] then ''[]'' else ''[c1]'')"

definition example_decode :: "string \<Rightarrow> Customer list option" where
  "example_decode s =
     (if s = ''[]'' then Some []
      else if s = ''[c1]'' then Some [example_customer]
      else None)"

definition example_storage :: localStorage where
  "example_storage = \<lparr>entries = Map.empty, denied = False, full = False\<rparr>"

definition example_app :: "rat App" where
  "example_app =
     \<lparr>activeView = ''creator'', customers = [example_customer], documents = [],
      storage = example_storage\<rparr>"

definition example_draft :: "rat LineItem DocumentCreator" where
  "example_draft =
     \<lparr>type_st = Invoice, customerId_st = ''c1'',
      lineItems_st =
        [\<lparr>id_LineItem = ''1700000000000'', description = ''X'', quantity = 1, unitPrice = 100\<rparr>],
      aiPrompt = ''A website'', isLoading = False\<rparr>"

definition example_items :: "rat json list" where
  "example_items =
     [JObj [(''description'', JStr ''Design''), (''quantity'', JNum 10), (''unitPrice'', JNum 50)],
      JObj [(''description'', JStr ''Hosting''), (''quantity'', JNum 1), (''unitPrice'', JNum 120)]]"

text \<open>
  A reader of natural numbers in decimal digits, the inverse of \<open>toString\<close>; a collection
  of three customers; and a document with natural numbers as quantities and unit prices.
\<close>

definition readDigits :: "string \<Rightarrow> nat" where
  "readDigits s = foldl (\<lambda>a c. 10 * a + (of_char c - 48)) 0 s"

definition example_customers :: "Customer list" where
  "example_customers =
     [\<lparr>id_Customer = ''c2'', name = [CHR ''G'', CHR 0x22, CHR ''H'', CHR 0x22],
        email = ''grace@example.org'', address = [CHR ''1'', CHR 0x0A, CHR ''2'']\<rparr>,
      example_customer,
      \<lparr>id_Customer = ''c3'', name = ''Ada'', email = ''ada@example.org'', address = [CHR 0x5C]\<rparr>]"

definition example_document :: "nat json" where
  "example_document =
     JObj [(''id'', JStr ''1700000000000''), (''customerId'', JStr ''c1''),
           (''type'', JStr ''Invoice''), (''date'', JStr ''2023-11-14T22:13:20.000Z''),
           (''lineItems'',
              JArr [JObj [(''id'', JStr ''a''), (''description'', JStr ''Design''),
                          (''quantity'', JNum 10), (''unitPrice'', JNum 50)],
                    JObj [(''id'', JStr ''b''), (''description'', JStr ''Hosting''),
                          (''quantity'', JNum 0), (''unitPrice'', JNum 120)]])]"


section \<open>Theorems\<close>

text \<open>
  With no law of arithmetic at all, both totals add the line totals to 0 one after the
  other, in the order of the sequence.
\<close>

lemma totals_in_order:
  fixes L :: "('n::{zero,plus,times}) LineItem list"
  shows "calculateTotal L = foldl (+) 0 (map lineTotal L)"
    and "total_memo L = foldl (+) 0 (map lineTotal L)"
  by (simp_all add: calculateTotal_def total_memo_def lineTotal_def foldl_map)

lemma upt_0_Suc_map: "[0..<Suc n] = 0 # map Suc [0..<n]"
  by (simp only: map_Suc_upt upt_conv_Cons [of 0 "Suc n"] zero_less_Suc)

text \<open>
  The map of line 224 gives one object for each element, in the order of the array: the
  one at index \<open>j\<close> is the element spread, with the identifier drawn at the call for
  that index.
\<close>

lemma mapWithIds_index:
  "mapWithIds draws i xs
     = map (\<lambda>j. itemWithId (xs ! j) (newId (draws (i + j)))) [0..<length xs]"
proof (induction xs arbitrary: i)
  case Nil
  then show ?case by simp
next
  case (Cons x xs)
  have "mapWithIds draws i (x # xs)
      = itemWithId x (newId (draws i))
          # map (\<lambda>j. itemWithId (xs ! j) (newId (draws (Suc i + j)))) [0..<length xs]"
    by (simp only: mapWithIds.simps Cons.IH)
  also have "\<dots> = map (\<lambda>j. itemWithId ((x # xs) ! j) (newId (draws (i + j)))) [0..<length (x # xs)]"
    unfolding length_Cons by (simp only: upt_0_Suc_map) (simp add: comp_def del: upt_Suc)
  finally show ?case .
qed

text \<open>
  Setting a property changes what is read under its name and nothing else. The object
  built of a record of C4 reads as the line item of the record and the identifier.
\<close>

lemma map_of_setProperty:
  "map_of (setProperty k v ps) k' = (if k' = k then Some v else map_of ps k')"
proof (cases "k \<in> set (map fst ps)")
  case False
  then have "map_of ps k = None" by (simp add: map_of_eq_None_iff)
  with False show ?thesis by (auto simp add: setProperty_def map_add_def split: option.splits)
next
  case True
  have "map_of (map (\<lambda>p. if fst p = k then (k, v) else p) ps) k'
      = (if k' = k then (if k \<in> set (map fst ps) then Some v else None) else map_of ps k')"
    by (induction ps) (auto simp add: image_iff, force)
  with True show ?thesis by (simp add: setProperty_def)
qed

lemma asLineItem_itemWithId:
  assumes "recordFields x = Some raw"
  shows "asLineItem (itemWithId x ident) = Some (withId raw ident)"
proof -
  from assms obtain ps where x: "x = JObj ps"
    by (cases x) simp_all
  from assms show ?thesis
    unfolding x
    by (auto simp add: asLineItem_def itemWithId_def map_of_setProperty withId_def
          split: option.splits json.splits)
qed

lemma asLineItems_map:
  "(\<And>j. j < length xs \<Longrightarrow> asLineItem (f (xs ! j)) = Some (g (xs ! j))) \<Longrightarrow>
     asLineItems (map f xs) = Some (map g xs)"
proof (induction xs)
  case Nil
  then show ?case by simp
next
  case (Cons x xs)
  have "asLineItem (f x) = Some (g x)" using Cons.prems [of 0] by simp
  moreover have "asLineItems (map f xs) = Some (map g xs)"
  proof (rule Cons.IH)
    fix j assume "j < length xs"
    then show "asLineItem (f (xs ! j)) = Some (g (xs ! j))"
      using Cons.prems [of "Suc j"] by simp
  qed
  ultimately show ?case by simp
qed

text \<open>The decimal text of a natural number consists of digits.\<close>

lemma digit_isDigit: "d < 10 \<Longrightarrow> isDigit (digit d)"
proof -
  assume "d < 10"
  then have "d \<in> {0, 1, 2, 3, 4, 5, 6, 7, 8, 9}" by auto
  then show ?thesis by (auto simp add: digit_def isDigit_def)
qed

lemma toString_digits: "list_all isDigit (toString n)"
proof (induction n rule: toString.induct)
  case (1 n)
  show ?case
  proof (cases "n < 10")
    case True
    then show ?thesis by (subst toString.simps) (simp add: digit_isDigit)
  next
    case False
    then have "list_all isDigit (toString (n div 10))" using "1" by simp
    moreover have "isDigit (digit (n mod 10))" by (simp add: digit_isDigit)
    ultimately show ?thesis using False by (subst toString.simps) simp
  qed
qed

text \<open>
  The text of a random number cannot be prolonged to the left by digits and stay such a
  text. So an identifier of line 224 determines its random part.
\<close>

lemma randomText_no_digit_prefix:
  assumes "randomText r" and "randomText (us @ r)" and "list_all isDigit us"
  shows "us = []"
proof (cases us)
  case Nil
  then show ?thesis .
next
  case (Cons u us')
  from assms(1) obtain d rest where r: "r = d # rest" and d: "isDigit d"
    by (cases r rule: randomText.cases) auto
  show ?thesis
  proof (cases us')
    case Nil
    with Cons r d assms(2) show ?thesis by simp
  next
    case (Cons u' us'')
    with \<open>us = u # us'\<close> assms(2,3) show ?thesis by simp
  qed
qed

lemma newId_random_part:
  assumes eq: "newId (a, r) = newId (b, s)" and r: "randomText r" and s: "randomText s"
  shows "r = s"
proof -
  from eq have "toString a @ r = toString b @ s" by (simp add: newId_def)
  then obtain us where
    "(toString a = toString b @ us \<and> us @ r = s) \<or> (toString a @ us = toString b \<and> r = us @ s)"
    by (auto simp add: append_eq_append_conv2)
  then show ?thesis
  proof
    assume h: "toString a = toString b @ us \<and> us @ r = s"
    have "list_all isDigit us"
      using toString_digits [of a] h by simp
    with r s h have "us = []" by (intro randomText_no_digit_prefix [of r us]) auto
    with h show ?thesis by simp
  next
    assume h: "toString a @ us = toString b \<and> r = us @ s"
    have "list_all isDigit us"
      using toString_digits [of b] h [THEN conjunct1, symmetric] by simp
    with r s h have "us = []" by (intro randomText_no_digit_prefix [of s us]) auto
    with h show ?thesis by simp
  qed
qed

lemma newId_distinct:
  assumes wf: "\<And>i. i < n \<Longrightarrow> randomText (snd (draws i))"
    and rnd: "\<And>i j. i < n \<Longrightarrow> j < n \<Longrightarrow> i \<noteq> j \<Longrightarrow> snd (draws i) \<noteq> snd (draws j)"
  shows "distinct (map (\<lambda>j. newId (draws j)) [0..<n])"
proof -
  have "inj_on (\<lambda>j. newId (draws j)) (set [0..<n])"
  proof (rule inj_onI)
    fix i j
    assume i: "i \<in> set [0..<n]" and j: "j \<in> set [0..<n]"
      and eq: "newId (draws i) = newId (draws j)"
    from i j have lt: "i < n" "j < n" by simp_all
    have "snd (draws i) = snd (draws j)"
    proof (rule newId_random_part [of "fst (draws i)" _ "fst (draws j)"])
      show "newId (fst (draws i), snd (draws i)) = newId (fst (draws j), snd (draws j))"
        using eq by simp
      show "randomText (snd (draws i))" by (rule wf [OF lt(1)])
      show "randomText (snd (draws j))" by (rule wf [OF lt(2)])
    qed
    with rnd [OF lt] show "i = j" by blast
  qed
  then show ?thesis by (simp add: distinct_map)
qed

text \<open>
  \<open>bits\<close> counts binary digits and \<open>ilog2\<close> is the binary exponent: a positive \<open>x\<close>
  lies between \<open>2 ^ ilog2 x\<close> and the next power of two. The value \<open>fl x\<close>, when it is
  finite, is at most half a unit of the last place away from \<open>x\<close>.
\<close>

lemma bits_bounds: "0 < n \<Longrightarrow> 2 ^ (bits n - 1) \<le> n \<and> n < 2 ^ bits n"
proof (induction n rule: bits.induct)
  case (1 n)
  show ?case
  proof (cases "n div 2 = 0")
    case True
    with 1(2) have "n = 1" by (simp add: div_eq_0_iff) 
    then show ?thesis by (simp add: bits.simps)
  next
    case False
    then have pos: "0 < n div 2" by simp
    with 1 have ih: "2 ^ (bits (n div 2) - 1) \<le> n div 2 \<and> n div 2 < 2 ^ bits (n div 2)"
      by simp
    have b: "bits n = Suc (bits (n div 2))" using 1(2) by (simp add: bits.simps)
    have bp: "0 < bits (n div 2)" using pos by (simp add: bits.simps)
    then obtain k where k: "bits (n div 2) = Suc k" by (cases "bits (n div 2)") auto
    define p :: nat where "p = 2 ^ k"
    from ih k have "p \<le> n div 2" "n div 2 < 2 * p" by (simp_all add: p_def)
    then have "2 * p \<le> n" "n < 2 * (2 * p)" by arith+
    then show ?thesis by (simp add: b k p_def)
  qed
qed

lemma rat_of_bits:
  assumes "0 < n" and "bits n = Suc k"
  shows "(2::rat) ^ k \<le> of_nat n" and "(of_nat n :: rat) + 1 \<le> 2 ^ Suc k"
proof -
  from bits_bounds [OF assms(1)] assms(2) have "2 ^ k \<le> n" "n + 1 \<le> 2 ^ Suc k" by simp_all
  then have "(of_nat (2 ^ k) :: rat) \<le> of_nat n" "(of_nat (n + 1) :: rat) \<le> of_nat (2 ^ Suc k)"
    by (simp_all only: of_nat_le_iff)
  then show "(2::rat) ^ k \<le> of_nat n" and "(of_nat n :: rat) + 1 \<le> 2 ^ Suc k"
    by simp_all
qed

lemma ilog2_bounds:
  assumes "0 < x"
  shows "pow2 (ilog2 x) \<le> x \<and> x < pow2 (ilog2 x + 1)"
proof (cases "1 \<le> x")
  case True
  define n where "n = nat \<lfloor>x\<rfloor>"
  have fl1: "1 \<le> \<lfloor>x\<rfloor>" using True by linarith
  have n0: "0 < n" unfolding n_def using fl1 by linarith
  have "(of_nat n :: rat) = of_int \<lfloor>x\<rfloor>"
    unfolding n_def using fl1 by (intro of_nat_nat) linarith
  then have n: "of_nat n \<le> x" "x < of_nat n + 1" by linarith+
  obtain k where k: "bits n = Suc k" using n0 by (cases "bits n") (auto simp add: bits.simps)
  from rat_of_bits [OF n0 k] n have "(2::rat) ^ k \<le> x" "x < 2 ^ Suc k" by linarith+
  moreover have "ilog2 x = int k" using True k by (simp add: ilog2_def n_def)
  ultimately show ?thesis by (simp add: pow2_def nat_add_distrib)
next
  case False
  define m where "m = nat (\<lceil>1 / x\<rceil> - 1)"
  have inv: "1 < 1 / x" using assms False by simp
  then have c: "2 \<le> \<lceil>1 / x\<rceil>" by linarith
  have m0: "0 < m" unfolding m_def using c by linarith
  have "(of_nat m :: rat) = of_int (\<lceil>1 / x\<rceil> - 1)"
    unfolding m_def using c by (intro of_nat_nat) linarith
  then have "(of_nat m :: rat) = of_int \<lceil>1 / x\<rceil> - 1" by simp
  then have m: "of_nat m < 1 / x" "1 / x \<le> of_nat m + 1" by linarith+
  obtain k where k: "bits m = Suc k" using m0 by (cases "bits m") (auto simp add: bits.simps)
  from rat_of_bits [OF m0 k] m have lo: "(2::rat) ^ k < 1 / x" and hi: "1 / x \<le> 2 ^ Suc k"
    by linarith+
  have p: "(0::rat) < 2 ^ k" "(0::rat) < 2 ^ Suc k" by simp_all
  from lo assms p(1) have up: "x < 1 / 2 ^ k"
    by (simp add: field_simps)
  from hi assms p(2) have low: "1 / 2 ^ Suc k \<le> x"
    by (simp add: field_simps)
  have i: "ilog2 x = - int (Suc k)" using False k by (simp add: ilog2_def m_def)
  show ?thesis
  proof (cases k)
    case 0
    with up low i show ?thesis by (simp add: pow2_def)
  next
    case (Suc j)
    with up low i show ?thesis by (simp add: pow2_def nat_add_distrib)
  qed
qed

lemma pow2_pos: "0 < pow2 e"
  by (simp add: pow2_def)

lemma roundHalfEven_nearest: "\<bar>of_int (roundHalfEven y) - y\<bar> \<le> 1 / 2"
proof -
  have "of_int \<lfloor>y\<rfloor> \<le> y" "y < of_int \<lfloor>y\<rfloor> + 1" by linarith+
  then show ?thesis
    by (auto simp add: roundHalfEven_def Let_def)
qed

lemma fl_nearest:
  assumes "fl x = Finite r"
  shows "\<bar>r - x\<bar> \<le> pow2 (max (ilog2 \<bar>x\<bar>) (- 1022) - 52) / 2"
proof (cases "x = 0")
  case True
  with assms show ?thesis using pow2_pos [of "max (ilog2 \<bar>x\<bar>) (- 1022) - 52"]
    by (simp add: fl_def)
next
  case False
  define e where "e = max (ilog2 \<bar>x\<bar>) (- 1022) - 52"
  define m where "m = roundHalfEven (\<bar>x\<bar> / pow2 e)"
  have p: "0 < pow2 e" by (rule pow2_pos)
  from assms False have r: "r = (if 0 < x then of_int m * pow2 e else - (of_int m * pow2 e))"
    by (simp add: fl_def Let_def e_def m_def split: if_splits)
  have "\<bar>of_int m - \<bar>x\<bar> / pow2 e\<bar> \<le> 1 / 2"
    unfolding m_def by (rule roundHalfEven_nearest)
  then have "\<bar>of_int m - \<bar>x\<bar> / pow2 e\<bar> * pow2 e \<le> 1 / 2 * pow2 e"
    using p by (intro mult_right_mono) simp_all
  moreover have "\<bar>of_int m - \<bar>x\<bar> / pow2 e\<bar> * pow2 e = \<bar>of_int m * pow2 e - \<bar>x\<bar>\<bar>"
  proof -
    have "\<bar>of_int m - \<bar>x\<bar> / pow2 e\<bar> * pow2 e = \<bar>(of_int m - \<bar>x\<bar> / pow2 e) * pow2 e\<bar>"
      using p by (simp add: abs_mult)
    also have "(of_int m - \<bar>x\<bar> / pow2 e) * pow2 e = of_int m * pow2 e - \<bar>x\<bar>"
      using p by (simp add: field_simps)
    finally show ?thesis .
  qed
  ultimately have "\<bar>of_int m * pow2 e - \<bar>x\<bar>\<bar> \<le> pow2 e / 2" by simp
  then have "\<bar>r - x\<bar> \<le> pow2 e / 2"
    using False by (cases "0 < x") (simp_all add: r abs_if split: if_splits)
  then show ?thesis by (simp add: e_def)
qed

text \<open>
  What \<open>simp\<close> needs to compute \<open>fl\<close> of a quotient of numerals.
\<close>

lemma floor_rat_numeral: "\<lfloor>(numeral a :: rat) / numeral b\<rfloor> = numeral a div numeral b"
  by (metis floor_divide_of_int_eq of_int_numeral)

lemma ceiling_rat_numeral: "\<lceil>(numeral a :: rat) / numeral b\<rceil> = - ((- numeral a) div numeral b)"
  by (metis ceiling_def divide_minus_left floor_divide_of_int_eq of_int_minus of_int_numeral)

lemmas fl_eval = fl_def ilog2_def bits.simps pow2_def roundHalfEven_def Let_def
  floor_rat_numeral ceiling_rat_numeral

text \<open>
  When every line total and every partial sum is representable, no addition and no
  multiplication of the fold rounds.
\<close>

lemma foldl_exact:
  assumes "\<forall>r \<in> set rows. representable (exactLineTotal r)"
    and "\<forall>k \<le> length rows. representable (a + sum_list (map exactLineTotal (take k rows)))"
  shows "foldl (\<lambda>acc item. acc + quantity item * unitPrice item) (Finite a) (map finiteItem rows)
      = Finite (a + sum_list (map exactLineTotal rows))"
  using assms
proof (induction rows arbitrary: a)
  case Nil
  then show ?case by simp
next
  case (Cons r rows)
  obtain i d q p where r: "r = (i, d, q, p)" by (cases r) auto
  have prod: "fl (q * p) = Finite (q * p)"
    using Cons.prems(1) by (simp add: r representable_def exactLineTotal_def)
  have "representable (a + sum_list (map exactLineTotal (take 1 (r # rows))))"
    using Cons.prems(2) by (metis One_nat_def Suc_leI length_Cons zero_less_Suc)
  then have sum1: "fl (a + q * p) = Finite (a + q * p)"
    by (simp add: r representable_def exactLineTotal_def)
  have step: "Finite a + quantity (finiteItem r) * unitPrice (finiteItem r) = Finite (a + q * p)"
    by (simp add: r finiteItem_def prod sum1)
  have rest: "\<forall>k \<le> length rows.
      representable ((a + q * p) + sum_list (map exactLineTotal (take k rows)))"
  proof (intro allI impI)
    fix k assume "k \<le> length rows"
    then have "Suc k \<le> length (r # rows)" by simp
    then have "representable (a + sum_list (map exactLineTotal (take (Suc k) (r # rows))))"
      using Cons.prems(2) by blast
    then show "representable ((a + q * p) + sum_list (map exactLineTotal (take k rows)))"
      by (simp add: r exactLineTotal_def add.assoc)
  qed
  have "foldl (\<lambda>acc item. acc + quantity item * unitPrice item) (Finite (a + q * p))
          (map finiteItem rows)
      = Finite ((a + q * p) + sum_list (map exactLineTotal rows))"
    using Cons.IH [of "a + q * p"] Cons.prems(1) rest by simp
  moreover have "exactLineTotal r = q * p"
    by (simp add: r exactLineTotal_def)
  ultimately show ?case
    using step by (simp add: add.assoc)
qed

text \<open>
  The characters that \<open>quote\<close> writes between the quotation marks are read back as
  the string.
\<close>

lemma hexValue_hexDigit: "k < 16 \<Longrightarrow> hexValue (hexDigit k) = Some k"
proof -
  assume "k < 16"
  then have "k \<in> {0, 1, 2, 3, 4, 5, 6, 7, 8, 9, 10, 11, 12, 13, 14, 15}"
    by (simp add: less_Suc_eq numeral_eq_Suc)
  then show ?thesis
    by (auto simp add: hexValue_def hexDigit_def isDigit_def)
qed

lemma hex4_escape:
  assumes "n < 32"
  shows "hex4 (CHR ''0'') (CHR ''0'') (hexDigit (n div 16)) (hexDigit (n mod 16)) = Some n"
proof -
  have "hexValue (CHR ''0'') = Some 0"
    by (simp add: hexValue_def isDigit_def)
  moreover have "hexValue (hexDigit (n div 16)) = Some (n div 16)"
    using assms by (intro hexValue_hexDigit) simp
  moreover have "hexValue (hexDigit (n mod 16)) = Some (n mod 16)"
    by (intro hexValue_hexDigit) simp
  ultimately show ?thesis
    by (simp add: hex4_def)
qed

lemma parseChars_escapeChar:
  "parseChars (escapeChar c @ t)
     = (case parseChars t of None \<Rightarrow> None | Some (s, r) \<Rightarrow> Some (c # s, r))"
proof -
  consider (special) "c \<in> {CHR 0x22, CHR 0x5C, CHR 0x08, CHR 0x0C, CHR 0x0A, CHR 0x0D, CHR 0x09}"
    | (control) "c \<notin> {CHR 0x22, CHR 0x5C, CHR 0x08, CHR 0x0C, CHR 0x0A, CHR 0x0D, CHR 0x09}"
        "of_char c < (32 :: nat)"
    | (plain) "c \<notin> {CHR 0x22, CHR 0x5C, CHR 0x08, CHR 0x0C, CHR 0x0A, CHR 0x0D, CHR 0x09}"
        "\<not> of_char c < (32 :: nat)"
    by blast
  then show ?thesis
  proof cases
    case special
    then show ?thesis
      by (auto simp add: escapeChar_def simpleEscape_def)
  next
    case control
    have "hex4 (CHR ''0'') (CHR ''0'') (hexDigit (of_char c div 16)) (hexDigit (of_char c mod 16))
        = Some (of_char c)"
      using control(2) by (rule hex4_escape)
    moreover have "(of_char c :: nat) < 256" by simp
    ultimately show ?thesis
      using control by (simp add: escapeChar_def split: option.splits)
  next
    case plain
    then show ?thesis
      by (simp add: escapeChar_def)
  qed
qed

lemma parseChars_quoted:
  "parseChars (concat (map escapeChar s) @ CHR 0x22 # rest) = Some (s, rest)"
  by (induction s) (simp_all add: parseChars_escapeChar)

text \<open>
  A written value starts with a character that the reader of arrays and objects does
  not skip and does not take for a closing bracket.
\<close>

lemma numChar_first:
  assumes "numChar c"
  shows "\<not> isWs c" "c \<noteq> CHR 0x22" "c \<noteq> CHR ''[''" "c \<noteq> CHR '']''" "c \<noteq> CHR ''{''"
    "c \<noteq> CHR ''}''" "c \<noteq> CHR ''n''" "c \<noteq> CHR ''t''" "c \<noteq> CHR ''f''"
  using assms by (auto simp add: numChar_def isDigit_def isWs_def)

lemma isNumberText_nonempty: "isNumberText s \<Longrightarrow> s \<noteq> []"
  by (auto simp add: isNumberText_def)

lemma stringify_first:
  "readsBack nt rn v \<Longrightarrow> \<exists>c t. stringify nt v = c # t \<and> firstOfValue c"
proof (cases v)
  case (JNum n)
  assume "readsBack nt rn v"
  with JNum have ne: "nt n \<noteq> []" and all: "list_all numChar (nt n)"
    by (simp_all add: isNumberText_nonempty)
  then obtain c t where ct: "nt n = c # t" by (cases "nt n") auto
  with all have "numChar c" by simp
  then have "firstOfValue c"
    using numChar_first [of c] by (simp add: firstOfValue_def)
  with JNum ct show ?thesis by simp
qed (auto simp add: firstOfValue_def isWs_def quote_def)

lemma skipWs_first: "firstOfValue c \<Longrightarrow> skipWs (c # t) = c # t"
  by (simp add: skipWs_def firstOfValue_def)

text \<open>
  The reader on the text of a value without parts, followed by any text.
\<close>

lemma takeWhile_number:
  "list_all numChar s \<Longrightarrow> endsNumber rest \<Longrightarrow>
     takeWhile numChar (s @ rest) = s \<and> dropWhile numChar (s @ rest) = rest"
  by (induction s) (auto simp add: endsNumber_def split: list.splits)

lemma parse_null:
  "parseValue rn (Suc f) (''null'' @ rest) = Some (JNull, rest)"
  by (simp add: skipWs_def isWs_def)

lemma parse_true:
  "parseValue rn (Suc f) (''true'' @ rest) = Some (JBool True, rest)"
  by (simp add: skipWs_def isWs_def)

lemma parse_false:
  "parseValue rn (Suc f) (''false'' @ rest) = Some (JBool False, rest)"
  by (simp add: skipWs_def isWs_def)

lemma parse_string:
  "parseValue rn (Suc f) (quote s @ rest) = Some (JStr s, rest)"
  by (simp add: quote_def skipWs_def isWs_def parseChars_quoted)

lemma parse_number:
  assumes "isNumberText s" "list_all numChar s" "endsNumber rest"
  shows "parseValue rn (Suc f) (s @ rest) = Some (JNum (rn s), rest)"
proof -
  from assms(1) obtain c t where ct: "s = c # t"
    by (cases s) (auto dest: isNumberText_nonempty)
  with assms(2) have c: "numChar c" by simp
  have tw: "takeWhile numChar (c # t @ rest) = s" "dropWhile numChar (c # t @ rest) = rest"
    using takeWhile_number [OF assms(2,3)] ct by simp_all
  have sk: "skipWs (s @ rest) = c # t @ rest"
    using numChar_first(1) [OF c] ct by (simp add: skipWs_def)
  have n4: "take 4 (c # t @ rest) \<noteq> ''null''" "take 4 (c # t @ rest) \<noteq> ''true''"
    "take 5 (c # t @ rest) \<noteq> ''false''"
    using numChar_first [OF c] by (auto simp add: take_Cons')
  show ?thesis
    unfolding parseValue.simps sk
    using numChar_first [OF c] n4 tw assms(1) by (simp del: take_Cons_numeral)
qed

text \<open>
  The reader on the text of an array and of an object, given what it does on the
  elements and on the properties.
\<close>

lemma stringify_nonempty: "readsBack nt rn v \<Longrightarrow> 0 < length (stringify nt v)"
  using stringify_first [of nt rn v] by auto

lemma endsNumber_separator [simp]:
  "endsNumber (CHR '','' # t)" "endsNumber (CHR '']'' # t)" "endsNumber (CHR ''}'' # t)"
  by (simp_all add: endsNumber_def numChar_def isDigit_def)

lemma parse_array:
  assumes "xs \<noteq> [] \<Longrightarrow>
      parseElements rn f (stringifyElements nt xs @ CHR '']'' # rest) = Some (xs, rest)"
    and "readsBackElements nt rn xs"
  shows "parseValue rn (Suc f) (stringify nt (JArr xs) @ rest) = Some (JArr xs, rest)"
proof (cases xs)
  case Nil
  then show ?thesis by (simp add: skipWs_def isWs_def)
next
  case (Cons x ys)
  with assms(2) have "readsBack nt rn x" by simp
  then obtain c t where ct: "stringify nt x = c # t" and c: "firstOfValue c"
    using stringify_first by blast
  obtain u where u: "stringifyElements nt xs @ CHR '']'' # rest = c # u"
    using Cons ct by simp
  have "skipWs (c # u) = c # u" using c by (rule skipWs_first)
  moreover have "c \<noteq> CHR '']''" using c by (simp add: firstOfValue_def)
  moreover have "parseElements rn f (c # u) = Some (xs, rest)"
    using assms(1) Cons u by simp
  ultimately show ?thesis
    using u by (simp add: skipWs_def isWs_def)
qed

lemma parse_object:
  assumes "ps \<noteq> [] \<Longrightarrow>
      parseMembers rn f (stringifyMembers nt ps @ CHR ''}'' # rest) = Some (ps, rest)"
  shows "parseValue rn (Suc f) (stringify nt (JObj ps) @ rest) = Some (JObj ps, rest)"
proof (cases ps)
  case Nil
  then show ?thesis by (simp add: skipWs_def isWs_def)
next
  case (Cons p qs)
  obtain u where u: "stringifyMembers nt ps @ CHR ''}'' # rest = CHR 0x22 # u"
    using Cons by (simp add: quote_def)
  have "skipWs (CHR 0x22 # u) = CHR 0x22 # u" by (simp add: skipWs_def isWs_def)
  moreover have "parseMembers rn f (CHR 0x22 # u) = Some (ps, rest)"
    using assms(1) Cons u by simp
  ultimately show ?thesis
    using u by (simp add: skipWs_def isWs_def)
qed

lemma parse_elements_step:
  assumes x: "parseValue rn f (stringify nt x @ (if xs = [] then CHR '']'' # rest
                 else CHR '','' # stringifyElements nt xs @ CHR '']'' # rest))
              = Some (x, (if xs = [] then CHR '']'' # rest
                 else CHR '','' # stringifyElements nt xs @ CHR '']'' # rest))"
    and xs: "xs \<noteq> [] \<Longrightarrow>
      parseElements rn f (stringifyElements nt xs @ CHR '']'' # rest) = Some (xs, rest)"
  shows "parseElements rn (Suc f) (stringifyElements nt (x # xs) @ CHR '']'' # rest)
           = Some (x # xs, rest)"
proof (cases "xs = []")
  case True
  then show ?thesis using x by (simp add: skipWs_def isWs_def)
next
  case False
  then show ?thesis using x xs by (simp add: skipWs_def isWs_def)
qed

lemma parse_members_step:
  assumes v: "parseValue rn f (stringify nt v @ (if ps = [] then CHR ''}'' # rest
                 else CHR '','' # stringifyMembers nt ps @ CHR ''}'' # rest))
              = Some (v, (if ps = [] then CHR ''}'' # rest
                 else CHR '','' # stringifyMembers nt ps @ CHR ''}'' # rest))"
    and ps: "ps \<noteq> [] \<Longrightarrow>
      parseMembers rn f (stringifyMembers nt ps @ CHR ''}'' # rest) = Some (ps, rest)"
    and k: "k \<notin> fst ` set ps"
  shows "parseMembers rn (Suc f) (stringifyMembers nt ((k, v) # ps) @ CHR ''}'' # rest)
           = Some ((k, v) # ps, rest)"
proof -
  have q: "parseChars (concat (map escapeChar k) @ CHR 0x22 # t) = Some (k, t)" for t
    by (rule parseChars_quoted)
  have none: "map_of ps k = None" using k by (simp add: map_of_eq_None_iff)
  have keep: "filter (\<lambda>m. fst m \<noteq> k) ps = ps" using k by (auto simp add: filter_id_conv)
  show ?thesis
  proof (cases "ps = []")
    case True
    then show ?thesis using v q by (simp add: quote_def skipWs_def isWs_def)
  next
    case False
    then show ?thesis using v ps q none keep by (simp add: quote_def skipWs_def isWs_def)
  qed
qed

text \<open>
  Reading what \<open>stringify\<close> wrote gives the value back, with any text after it that
  does not continue a number, when the depth bound exceeds the length of the text.
\<close>

lemma parse_stringify:
  "readsBack nt rn v \<longrightarrow>
     (\<forall>fuel rest. endsNumber rest \<longrightarrow> length (stringify nt v) < fuel \<longrightarrow>
        parseValue rn fuel (stringify nt v @ rest) = Some (v, rest))"
  "xs \<noteq> [] \<longrightarrow> readsBackElements nt rn xs \<longrightarrow>
     (\<forall>fuel rest. length (stringifyElements nt xs) + 1 < fuel \<longrightarrow>
        parseElements rn fuel (stringifyElements nt xs @ CHR '']'' # rest) = Some (xs, rest))"
  "ps \<noteq> [] \<longrightarrow> distinct (map fst ps) \<longrightarrow> readsBackMembers nt rn ps \<longrightarrow>
     (\<forall>fuel rest. length (stringifyMembers nt ps) + 1 < fuel \<longrightarrow>
        parseMembers rn fuel (stringifyMembers nt ps @ CHR ''}'' # rest) = Some (ps, rest))"
proof (induction nt v and nt xs and nt ps rule: stringify_stringifyElements_stringifyMembers.induct)
  case (1 nt)
  show ?case
  proof (intro impI allI)
    fix fuel :: nat and rest
    assume "length (stringify nt JNull) < fuel"
    then obtain f where "fuel = Suc f" by (cases fuel) auto
    then show "parseValue rn fuel (stringify nt JNull @ rest) = Some (JNull, rest)"
      using parse_null [of rn f rest] by simp
  qed
next
  case (2 nt b)
  show ?case
  proof (intro impI allI)
    fix fuel :: nat and rest
    assume "length (stringify nt (JBool b)) < fuel"
    then obtain f where "fuel = Suc f" by (cases fuel) auto
    then show "parseValue rn fuel (stringify nt (JBool b) @ rest) = Some (JBool b, rest)"
      using parse_true [of rn f rest] parse_false [of rn f rest] by simp
  qed
next
  case (3 nt n)
  show ?case
  proof (intro impI allI)
    fix fuel :: nat and rest
    assume rb: "readsBack nt rn (JNum n)" and e: "endsNumber rest"
      and "length (stringify nt (JNum n)) < fuel"
    then obtain f where "fuel = Suc f" by (cases fuel) auto
    then show "parseValue rn fuel (stringify nt (JNum n) @ rest) = Some (JNum n, rest)"
      using parse_number [of "nt n" rest rn f] rb e by simp
  qed
next
  case (4 nt s)
  show ?case
  proof (intro impI allI)
    fix fuel :: nat and rest
    assume "length (stringify nt (JStr s)) < fuel"
    then obtain f where "fuel = Suc f" by (cases fuel) auto
    then show "parseValue rn fuel (stringify nt (JStr s) @ rest) = Some (JStr s, rest)"
      using parse_string [of rn f s rest] by simp
  qed
next
  case (5 nt xs)
  show ?case
  proof (intro impI allI)
    fix fuel :: nat and rest
    assume rb: "readsBack nt rn (JArr xs)"
      and len: "length (stringify nt (JArr xs)) < fuel"
    then obtain f where f: "fuel = Suc f" by (cases fuel) auto
    have "parseElements rn f (stringifyElements nt xs @ CHR '']'' # rest) = Some (xs, rest)"
      if "xs \<noteq> []"
      using 5 that rb len f by simp
    then show "parseValue rn fuel (stringify nt (JArr xs) @ rest) = Some (JArr xs, rest)"
      unfolding f using rb by (intro parse_array) simp_all
  qed
next
  case (6 nt ps)
  show ?case
  proof (intro impI allI)
    fix fuel :: nat and rest
    assume rb: "readsBack nt rn (JObj ps)"
      and len: "length (stringify nt (JObj ps)) < fuel"
    then obtain f where f: "fuel = Suc f" by (cases fuel) auto
    have "parseMembers rn f (stringifyMembers nt ps @ CHR ''}'' # rest) = Some (ps, rest)"
      if "ps \<noteq> []"
      using 6 that rb len f by simp
    then show "parseValue rn fuel (stringify nt (JObj ps) @ rest) = Some (JObj ps, rest)"
      unfolding f by (intro parse_object) simp_all
  qed
next
  case (7 nt)
  show ?case by simp
next
  case (8 nt x xs)
  show ?case
  proof (intro impI allI)
    fix fuel :: nat and rest
    assume rb: "readsBackElements nt rn (x # xs)"
      and len: "length (stringifyElements nt (x # xs)) + 1 < fuel"
    then obtain f where f: "fuel = Suc f" by (cases fuel) auto
    let ?tail = "if xs = [] then CHR '']'' # rest
                 else CHR '','' # stringifyElements nt xs @ CHR '']'' # rest"
    have x: "readsBack nt rn x" and xs: "readsBackElements nt rn xs" using rb by simp_all
    have pos: "0 < length (stringify nt x)" using x by (rule stringify_nonempty)
    have "endsNumber ?tail" by simp
    moreover have "length (stringify nt x) < f" using len f by (simp split: if_splits)
    ultimately have first: "parseValue rn f (stringify nt x @ ?tail) = Some (x, ?tail)"
      using "8.IH"(1) x by blast
    have others: "parseElements rn f (stringifyElements nt xs @ CHR '']'' # rest) = Some (xs, rest)"
      if "xs \<noteq> []"
    proof -
      have "length (stringifyElements nt xs) + 1 < f" using len f that pos by simp
      then show ?thesis using "8.IH"(2) that xs by blast
    qed
    show "parseElements rn fuel (stringifyElements nt (x # xs) @ CHR '']'' # rest)
            = Some (x # xs, rest)"
      unfolding f using first others by (rule parse_elements_step)
  qed
next
  case (9 nt)
  show ?case by simp
next
  case (10 nt p ps)
  show ?case
  proof (intro impI allI)
    fix fuel :: nat and rest
    assume d: "distinct (map fst (p # ps))"
      and rb: "readsBackMembers nt rn (p # ps)"
      and len: "length (stringifyMembers nt (p # ps)) + 1 < fuel"
    then obtain f where f: "fuel = Suc f" by (cases fuel) auto
    obtain k v where p: "p = (k, v)" by (cases p)
    let ?tail = "if ps = [] then CHR ''}'' # rest
                 else CHR '','' # stringifyMembers nt ps @ CHR ''}'' # rest"
    have v: "readsBack nt rn v" and ps: "readsBackMembers nt rn ps" using rb p by simp_all
    have k: "k \<notin> fst ` set ps" and d': "distinct (map fst ps)" using d p by simp_all
    have "endsNumber ?tail" by simp
    moreover have "length (stringify nt v) < f" using len f p by (simp split: if_splits)
    ultimately have first: "parseValue rn f (stringify nt v @ ?tail) = Some (v, ?tail)"
      using "10.IH"(1) v p by simp
    have others: "parseMembers rn f (stringifyMembers nt ps @ CHR ''}'' # rest) = Some (ps, rest)"
      if "ps \<noteq> []"
    proof -
      have "length (stringifyMembers nt ps) + 1 < f" using len f that p by simp
      then show ?thesis using "10.IH"(2) that ps d' by blast
    qed
    show "parseMembers rn fuel (stringifyMembers nt (p # ps) @ CHR ''}'' # rest)
            = Some (p # ps, rest)"
      unfolding f p using first others k by (rule parse_members_step)
  qed
qed

lemma decodeJSON_stringify:
  assumes "readsBack nt rn v"
  shows "decodeJSON rn (stringify nt v) = Some v"
proof -
  have "endsNumber []" by (simp add: endsNumber_def)
  moreover have "length (stringify nt v) < Suc (2 * length (stringify nt v))" by simp
  ultimately have "parseValue rn (Suc (2 * length (stringify nt v))) (stringify nt v @ [])
      = Some (v, [])"
    using parse_stringify(1) [of nt rn v] assms by blast
  then show ?thesis by (simp add: decodeJSON_def skipWs_def)
qed

text \<open>
  A collection of customers holds no number and its objects have four different
  property names; different collections have different JSON values. After a write that
  the store accepts, the read gives the value back.
\<close>

lemma readsBackElements_customers: "readsBackElements nt rn (map json_of_customer cs)"
  by (induction cs) (simp_all add: json_of_customer_def)

lemma readsBack_customers: "readsBack nt rn (json_of_customers cs)"
  by (simp add: json_of_customers_def readsBackElements_customers)

lemma json_of_customer_inj: "json_of_customer c = json_of_customer c' \<Longrightarrow> c = c'"
  by (cases c, cases c') (simp add: json_of_customer_def)

lemma json_of_customers_inj:
  "(json_of_customers cs :: 'n json) = json_of_customers cs' \<Longrightarrow> cs = cs'"
proof -
  assume "(json_of_customers cs :: 'n json) = json_of_customers cs'"
  then have "map json_of_customer cs = (map json_of_customer cs' :: 'n json list)"
    by (simp add: json_of_customers_def)
  moreover have "inj (json_of_customer :: Customer \<Rightarrow> 'n json)"
    by (rule injI) (rule json_of_customer_inj)
  ultimately show ?thesis by (simp add: inj_map_eq_map)
qed

lemma write_then_read:
  assumes "\<not> denied ls" and "\<not> full ls" and "readsBack nt rn v"
  shows "useLocalStorage_init (decodeJSON rn)
           (ls\<lparr>entries := (entries ls)(key \<mapsto> stringify nt v)\<rparr>) key initialValue = (v, [])"
proof -
  have "stringify nt v \<noteq> []" using assms(3) stringify_nonempty [of nt rn v] by auto
  then show ?thesis
    using assms decodeJSON_stringify [of nt rn v]
    by (simp add: useLocalStorage_init_def getItem_def JSON_parse_def)
qed

text \<open>
  C1, as amended. The numbers of the program are binary64 values. The line total of an
  item is the product of its quantity and its unit price as \<^verbatim>\<open>*\<close> gives it: for finite
  numbers the exact product, rounded. The total of a document, as the Dashboard computes
  it and as the Document Creator computes it, is what adding the line totals to 0 one
  after the other gives, in the order of the sequence, every sum rounded; it is 0 for no
  line items. When every exact line total and every sum of the first \<open>k\<close> exact line
  totals is a binary64 value, the line totals are the exact products and both totals are
  the exact sum, zero and fractional quantities and prices included.
\<close>

theorem C1_totals:
  fixes L :: "double LineItem list" and item :: "double LineItem"
  shows "lineTotal item = quantity item * unitPrice item
    \<and> lineTotal (finiteItem (i, d, q, p)) = fl (q * p)
    \<and> calculateTotal L = foldl (+) 0 (map lineTotal L)
    \<and> total_memo L = foldl (+) 0 (map lineTotal L)
    \<and> calculateTotal ([] :: double LineItem list) = Finite 0
    \<and> total_memo ([] :: double LineItem list) = Finite 0
    \<and> ((\<forall>r \<in> set rows. representable (exactLineTotal r))
        \<and> (\<forall>k \<le> length rows. representable (sum_list (map exactLineTotal (take k rows))))
      \<longrightarrow> map lineTotal (map finiteItem rows) = map (\<lambda>r. Finite (exactLineTotal r)) rows
        \<and> calculateTotal (map finiteItem rows) = Finite (sum_list (map exactLineTotal rows))
        \<and> total_memo (map finiteItem rows) = Finite (sum_list (map exactLineTotal rows)))"
proof (intro conjI impI)
  show "lineTotal item = quantity item * unitPrice item"
    by (simp add: lineTotal_def)
  show "lineTotal (finiteItem (i, d, q, p)) = fl (q * p)"
    by (simp add: lineTotal_def finiteItem_def)
  show "calculateTotal L = foldl (+) 0 (map lineTotal L)"
    by (rule totals_in_order(1))
  show "total_memo L = foldl (+) 0 (map lineTotal L)"
    by (rule totals_in_order(2))
  show "calculateTotal ([] :: double LineItem list) = Finite 0"
    by (simp add: calculateTotal_def zero_double_def)
  show "total_memo ([] :: double LineItem list) = Finite 0"
    by (simp add: total_memo_def zero_double_def)
next
  assume h: "(\<forall>r \<in> set rows. representable (exactLineTotal r))
        \<and> (\<forall>k \<le> length rows. representable (sum_list (map exactLineTotal (take k rows))))"
  show "map lineTotal (map finiteItem rows) = map (\<lambda>r. Finite (exactLineTotal r)) rows"
    using h by (auto simp add: lineTotal_def finiteItem_def representable_def exactLineTotal_def)
  have fold: "foldl (\<lambda>acc item. acc + quantity item * unitPrice item) (Finite 0)
        (map finiteItem rows)
      = Finite (0 + sum_list (map exactLineTotal rows))"
    using h by (intro foldl_exact) simp_all
  show "calculateTotal (map finiteItem rows) = Finite (sum_list (map exactLineTotal rows))"
    using fold by (simp add: calculateTotal_def zero_double_def)
  show "total_memo (map finiteItem rows) = Finite (sum_list (map exactLineTotal rows))"
    using fold by (simp add: total_memo_def zero_double_def)
qed

text \<open>
  C1 at three line items: 2.5 times 10, 0 times 7 and 0.5 times 0.25. The line totals
  are 25, 0 and 0.125 and the total is 25.125.
\<close>

theorem C1_totals_witness:
  "calculateTotal
     [finiteItem (''a'', ''X'', 5 / 2, 10), finiteItem (''b'', ''Y'', 0, 7),
      finiteItem (''c'', ''Z'', 1 / 2, 1 / 4)]
   = Finite (201 / 8)
   \<and> map lineTotal
     [finiteItem (''a'', ''X'', 5 / 2, 10), finiteItem (''b'', ''Y'', 0, 7),
      finiteItem (''c'', ''Z'', 1 / 2, 1 / 4)]
   = [Finite 25, Finite 0, Finite (1 / 8)]"
proof -
  let ?rows = "[(''a'', ''X'', 5 / 2, 10), (''b'', ''Y'', 0, 7), (''c'', ''Z'', 1 / 2, 1 / 4)]
      :: (string \<times> string \<times> rat \<times> rat) list"
  have products: "\<forall>r \<in> set ?rows. representable (exactLineTotal r)"
    by (simp add: representable_def exactLineTotal_def fl_eval)
  have sums: "\<forall>k \<le> length ?rows. representable (sum_list (map exactLineTotal (take k ?rows)))"
    by (simp add: le_Suc_eq representable_def exactLineTotal_def fl_eval)
  from C1_totals [where rows = ?rows] products sums
  have "map lineTotal (map finiteItem ?rows) = map (\<lambda>r. Finite (exactLineTotal r)) ?rows
      \<and> calculateTotal (map finiteItem ?rows) = Finite (sum_list (map exactLineTotal ?rows))"
    by blast
  then show ?thesis
    by (simp add: exactLineTotal_def)
qed

text \<open>
  C1 as the specification states it fails for the quantities 1, \<open>10 ^ 16\<close> and
  \<open>- (10 ^ 16)\<close> at the unit price 1, all three binary64 values: the sum of the line
  totals is 1 and the total that the code computes is 0, because \<open>1 + 10 ^ 16\<close> rounds to
  \<open>10 ^ 16\<close>. It fails for a line total as well: at the quantity 0.1, which is the
  binary64 value \<open>3602879701896397 / 2 ^ 55\<close>, and the unit price 3 the line total is
  the binary64 value \<open>1351079888211149 / 2 ^ 52\<close>, which the page shows as
  0.30000000000000004 before it cuts it to two decimals, and not the product
  \<open>10808639105689191 / 2 ^ 55\<close> of the two numbers.
\<close>

theorem C1_counterexample:
  "calculateTotal
     [finiteItem (''a'', ''X'', 1, 1), finiteItem (''b'', ''Y'', 10000000000000000, 1),
      finiteItem (''c'', ''Z'', - 10000000000000000, 1)]
   = Finite 0
   \<and> sum_list (map exactLineTotal
     [(''a'', ''X'', 1, 1), (''b'', ''Y'', 10000000000000000, 1),
      (''c'', ''Z'', - 10000000000000000, 1)])
   = 1
   \<and> representable 1 \<and> representable 10000000000000000
   \<and> representable (- 10000000000000000)
   \<and> lineTotal (finiteItem (''d'', ''W'', 3602879701896397 / 36028797018963968, 3))
   = Finite (1351079888211149 / 4503599627370496)
   \<and> exactLineTotal (''d'', ''W'', 3602879701896397 / 36028797018963968, 3)
   = 10808639105689191 / 36028797018963968
   \<and> representable (3602879701896397 / 36028797018963968) \<and> representable 3"
  by (simp add: calculateTotal_def lineTotal_def finiteItem_def exactLineTotal_def
        representable_def zero_double_def fl_eval)

text \<open>
  C2. \<^verbatim>\<open>saveDocument\<close> on a draft whose customerId is the empty string or whose lineItems
  are empty shows an alert and returns the application as it was: documents, active view,
  customers and storage. On any other draft it appends exactly one document to the
  documents collection, with the draft's type, customerId and lineItems, the identifier
  drawn from the clock at the call and the clock's ISO text as date; it sets the active
  view to the dashboard and shows no alert.
\<close>

theorem C2_saveDocument:
  fixes c :: "'n LineItem DocumentCreator" and app :: "'n App"
  shows "(customerId_st c = [] \<or> lineItems_st c = [] \<longrightarrow>
            saveDocument encode now isoText c app
              = (app, [Alert ''Please select a customer and add at least one line item.'']))
       \<and> (customerId_st c \<noteq> [] \<and> lineItems_st c \<noteq> [] \<longrightarrow>
            documents (fst (saveDocument encode now isoText c app))
              = documents app @
                  [\<lparr>id_Document = toString now, customerId = customerId_st c,
                    type = type_st c, date = isoText, lineItems = lineItems_st c\<rparr>]
          \<and> activeView (fst (saveDocument encode now isoText c app)) = ''dashboard''
          \<and> customers (fst (saveDocument encode now isoText c app)) = customers app
          \<and> userVisibleErrors (snd (saveDocument encode now isoText c app)) = [])"
  by (simp add: saveDocument_def setDocuments_def setValue_def setItem_def setActiveView_def
        userVisibleErrors_def Let_def split: prod.splits sum.splits)

text \<open>
  C2 at the initial draft, which has no customer and no line items, and at the
  example draft, whose saved document has the total 100.
\<close>

theorem C2_saveDocument_witness:
  "saveDocument (\<lambda>ds. ''[]'') 1700000000000 ''2023-11-14T22:13:20.000Z''
       (DocumentCreator_init :: rat LineItem DocumentCreator) example_app
     = (example_app, [Alert ''Please select a customer and add at least one line item.''])
   \<and> documents (fst (saveDocument (\<lambda>ds. ''[]'') 1700000000000 ''2023-11-14T22:13:20.000Z''
          example_draft example_app))
     = [\<lparr>id_Document = ''1700000000000'', customerId = ''c1'', type = Invoice,
         date = ''2023-11-14T22:13:20.000Z'',
         lineItems =
           [\<lparr>id_LineItem = ''1700000000000'', description = ''X'', quantity = 1,
             unitPrice = 100\<rparr>]\<rparr>]
   \<and> activeView (fst (saveDocument (\<lambda>ds. ''[]'') 1700000000000 ''2023-11-14T22:13:20.000Z''
          example_draft example_app)) = ''dashboard''
   \<and> map (\<lambda>d. calculateTotal (lineItems d))
        (documents (fst (saveDocument (\<lambda>ds. ''[]'') 1700000000000 ''2023-11-14T22:13:20.000Z''
          example_draft example_app))) = [100]"
  using C2_saveDocument [of "DocumentCreator_init :: rat LineItem DocumentCreator"
      "\<lambda>ds. ''[]''" 1700000000000 "''2023-11-14T22:13:20.000Z''" example_app]
    C2_saveDocument [of example_draft
      "\<lambda>ds. ''[]''" 1700000000000 "''2023-11-14T22:13:20.000Z''" example_app]
  by (simp add: DocumentCreator_init_def example_draft_def example_app_def
        calculateTotal_def toString.simps digit_def)

text \<open>
  C3, as amended. A call of \<^verbatim>\<open>handleGenerateWithAI\<close> with a prompt ends with
  \<^verbatim>\<open>isLoading\<close> false in every case, and
  \<^item> when the request rejects, the response text does not parse, the text parses to
    \<^verbatim>\<open>null\<close>, or it parses to an object whose \<^verbatim>\<open>lineItems\<close> is a truthy value that is no
    array, it shows the one alert of the handler and leaves the line items as they were;
  \<^item> when the text parses to a value with no \<^verbatim>\<open>lineItems\<close> or a falsy one, it leaves the
    line items as they were and shows no alert;
  \<^item> when the text parses to an object whose \<^verbatim>\<open>lineItems\<close> is an array, it shows no
    alert and replaces the line items by one object for each element, the element's own
    properties with a new identifier, whatever the elements are: a missing field, a
    field of another type or an element that is no object is not noticed.
  Every response is of one of these three kinds.
\<close>

theorem C3_generate_failure:
  fixes c :: "'i DocumentCreator" and response :: "('n::zero) generateContent"
  assumes "aiPrompt c \<noteq> []"
  shows "(response = Rejects \<or> response = Unparseable \<or> response = Parses JNull
          \<or> (\<exists>ps v. response = Parses (JObj ps) \<and> map_of ps ''lineItems'' = Some v
                \<and> truthy v \<and> (\<forall>xs. v \<noteq> JArr xs))
        \<longrightarrow> map_prod id userVisibleErrors (handleGenerateWithAI draws response c)
            = (Kept (c\<lparr>isLoading := False\<rparr>),
                [''Sorry, there was an error generating the items. Please try again.'']))
     \<and> ((\<exists>r. response = Parses r
            \<and> (lineItems_of r = Inr None \<or> (\<exists>v. lineItems_of r = Inr (Some v) \<and> \<not> truthy v)))
        \<longrightarrow> map_prod id userVisibleErrors (handleGenerateWithAI draws response c)
            = (Kept (c\<lparr>isLoading := False\<rparr>), []))
     \<and> (\<forall>ps xs. response = Parses (JObj ps) \<and> map_of ps ''lineItems'' = Some (JArr xs)
        \<longrightarrow> map_prod id userVisibleErrors (handleGenerateWithAI draws response c)
            = (Replaced (setLineItems
                  (map (\<lambda>j. itemWithId (xs ! j) (newId (draws j))) [0..<length xs])
                  (c\<lparr>isLoading := False\<rparr>)), []))
     \<and> ((response = Rejects \<or> response = Unparseable \<or> response = Parses JNull
          \<or> (\<exists>ps v. response = Parses (JObj ps) \<and> map_of ps ''lineItems'' = Some v
                \<and> truthy v \<and> (\<forall>xs. v \<noteq> JArr xs)))
        \<or> (\<exists>r. response = Parses r
            \<and> (lineItems_of r = Inr None \<or> (\<exists>v. lineItems_of r = Inr (Some v) \<and> \<not> truthy v)))
        \<or> (\<exists>ps xs. response = Parses (JObj ps) \<and> map_of ps ''lineItems'' = Some (JArr xs)))"
proof (intro conjI impI allI)
  assume "response = Rejects \<or> response = Unparseable \<or> response = Parses JNull
          \<or> (\<exists>ps v. response = Parses (JObj ps) \<and> map_of ps ''lineItems'' = Some v
                \<and> truthy v \<and> (\<forall>xs. v \<noteq> JArr xs))"
  then have "\<exists>e. tryBlock draws response = Throws e"
    by (auto simp add: tryBlock_def split: json.splits)
  then show "map_prod id userVisibleErrors (handleGenerateWithAI draws response c)
            = (Kept (c\<lparr>isLoading := False\<rparr>),
                [''Sorry, there was an error generating the items. Please try again.''])"
    using assms by (auto simp add: handleGenerateWithAI_def userVisibleErrors_def)
next
  assume "\<exists>r. response = Parses r
            \<and> (lineItems_of r = Inr None \<or> (\<exists>v. lineItems_of r = Inr (Some v) \<and> \<not> truthy v))"
  then have "tryBlock draws response = NoUpdate"
    by (auto simp add: tryBlock_def)
  then show "map_prod id userVisibleErrors (handleGenerateWithAI draws response c)
            = (Kept (c\<lparr>isLoading := False\<rparr>), [])"
    using assms by (simp add: handleGenerateWithAI_def userVisibleErrors_def)
next
  fix ps :: "(string \<times> 'n json) list" and xs
  assume "response = Parses (JObj ps) \<and> map_of ps ''lineItems'' = Some (JArr xs)"
  then have "tryBlock draws response
      = SetLineItems (map (\<lambda>j. itemWithId (xs ! j) (newId (draws j))) [0..<length xs])"
    using mapWithIds_index [of draws 0 xs] by (simp add: tryBlock_def)
  then show "map_prod id userVisibleErrors (handleGenerateWithAI draws response c)
            = (Replaced (setLineItems
                  (map (\<lambda>j. itemWithId (xs ! j) (newId (draws j))) [0..<length xs])
                  (c\<lparr>isLoading := False\<rparr>)), [])"
    using assms by (simp add: handleGenerateWithAI_def userVisibleErrors_def)
next
  show "(response = Rejects \<or> response = Unparseable \<or> response = Parses JNull
          \<or> (\<exists>ps v. response = Parses (JObj ps) \<and> map_of ps ''lineItems'' = Some v
                \<and> truthy v \<and> (\<forall>xs. v \<noteq> JArr xs)))
        \<or> (\<exists>r. response = Parses r
            \<and> (lineItems_of r = Inr None \<or> (\<exists>v. lineItems_of r = Inr (Some v) \<and> \<not> truthy v)))
        \<or> (\<exists>ps xs. response = Parses (JObj ps) \<and> map_of ps ''lineItems'' = Some (JArr xs))"
  proof (cases response)
    case (Parses r)
    show ?thesis
    proof (cases r)
      case (JObj ps)
      show ?thesis
      proof (cases "map_of ps ''lineItems''")
        case None
        with Parses JObj show ?thesis by simp
      next
        case (Some v)
        show ?thesis
        proof (cases "truthy v")
          case False
          with Parses JObj Some show ?thesis by simp
        next
          case True
          with Parses JObj Some show ?thesis by (cases v) simp_all
        qed
      qed
    qed (simp_all add: Parses)
  qed simp_all
qed

text \<open>
  C3 at a response text that does not parse, at an object whose \<^verbatim>\<open>lineItems\<close> is a
  string, at an object whose \<^verbatim>\<open>lineItems\<close> is \<^verbatim>\<open>null\<close>, and at an array of
  \<^verbatim>\<open>null\<close>, a string and an object with a string as quantity.
\<close>

theorem C3_generate_failure_witness:
  "map_prod id userVisibleErrors
     (handleGenerateWithAI (\<lambda>i. (1700000000000, ''0.5''))
        (Unparseable :: rat generateContent) example_draft)
   = (Kept example_draft,
       [''Sorry, there was an error generating the items. Please try again.''])
   \<and> map_prod id userVisibleErrors
     (handleGenerateWithAI (\<lambda>i. (1700000000000, ''0.5''))
        (Parses (JObj [(''lineItems'', JStr ''none'')]) :: rat generateContent) example_draft)
   = (Kept example_draft,
       [''Sorry, there was an error generating the items. Please try again.''])
   \<and> map_prod id userVisibleErrors
     (handleGenerateWithAI (\<lambda>i. (1700000000000, ''0.5''))
        (Parses (JObj [(''lineItems'', JNull)]) :: rat generateContent) example_draft)
   = (Kept example_draft, [])
   \<and> map_prod id userVisibleErrors
     (handleGenerateWithAI (\<lambda>i. (1700000000000, ''0.5''))
        (Parses (JObj [(''lineItems'', JArr [JNull, JStr ''ab'', JObj [(''quantity'', JStr ''two'')]])])
           :: rat generateContent) example_draft)
   = (Replaced
        \<lparr>type_st = Invoice, customerId_st = ''c1'',
         lineItems_st =
           [[(''id'', JStr ''17000000000000.5'')],
            [(''0'', JStr ''a''), (''1'', JStr ''b''), (''id'', JStr ''17000000000000.5'')],
            [(''quantity'', JStr ''two''), (''id'', JStr ''17000000000000.5'')]],
         aiPrompt = ''A website'', isLoading = False\<rparr>, [])"
proof -
  have prompt: "aiPrompt example_draft \<noteq> []"
    by (simp add: example_draft_def)
  show ?thesis
    using C3_generate_failure [OF prompt, where response = "Unparseable :: rat generateContent"
        and draws = "\<lambda>i. (1700000000000, ''0.5'')"]
      C3_generate_failure [OF prompt,
        where response = "Parses (JObj [(''lineItems'', JStr ''none'')]) :: rat generateContent"
        and draws = "\<lambda>i. (1700000000000, ''0.5'')"]
      C3_generate_failure [OF prompt,
        where response = "Parses (JObj [(''lineItems'', JNull)]) :: rat generateContent"
        and draws = "\<lambda>i. (1700000000000, ''0.5'')"]
      C3_generate_failure [OF prompt,
        where response = "Parses (JObj [(''lineItems'',
            JArr [JNull, JStr ''ab'', JObj [(''quantity'', JStr ''two'')]])]) :: rat generateContent"
        and draws = "\<lambda>i. (1700000000000, ''0.5'')"]
    by (simp add: example_draft_def setLineItems_def itemWithId_def setProperty_def newId_def
          toString.simps digit_def upt_conv_Cons)
qed

text \<open>
  C3 as the specification states it fails at the response \<^verbatim>\<open>{}\<close>, which lacks the
  required \<^verbatim>\<open>lineItems\<close>: the line items stay and \<^verbatim>\<open>isLoading\<close> ends false, but no
  alert is shown. It fails as well at a response whose one item lacks the required
  \<^verbatim>\<open>quantity\<close> and \<^verbatim>\<open>unitPrice\<close>: no alert is shown, and the one line item of the draft
  is replaced by the object of the response.
\<close>

theorem C3_counterexample:
  "map_prod id userVisibleErrors
     (handleGenerateWithAI (\<lambda>i. (1700000000000, ''0.5''))
        (Parses (JObj []) :: rat generateContent) example_draft)
   = (Kept example_draft, [])
   \<and> map_prod id userVisibleErrors
     (handleGenerateWithAI (\<lambda>i. (1700000000000, ''0.5''))
        (Parses (JObj [(''lineItems'', JArr [JObj [(''description'', JStr ''Design'')]])])
           :: rat generateContent) example_draft)
   = (Replaced
        \<lparr>type_st = Invoice, customerId_st = ''c1'',
         lineItems_st = [[(''description'', JStr ''Design''), (''id'', JStr ''17000000000000.5'')]],
         aiPrompt = ''A website'', isLoading = False\<rparr>, [])"
  by (simp add: handleGenerateWithAI_def tryBlock_def userVisibleErrors_def example_draft_def
        setLineItems_def itemWithId_def setProperty_def newId_def toString.simps digit_def)

text \<open>
  C4, as amended. When the request succeeds and the response parses to an object whose
  \<^verbatim>\<open>lineItems\<close> is an array of description, quantity and unitPrice records,
  \<^verbatim>\<open>handleGenerateWithAI\<close> replaces the line items of the draft by exactly these records
  in their order, the one at index \<open>j\<close> with the identifier drawn for it from the clock and
  the random generator, shows no alert and ends with \<^verbatim>\<open>isLoading\<close> false: the draft is
  one of objects, each an element with its identifier, and read at the type
  \<^verbatim>\<open>LineItem\<close> it is the old draft with the line items of the records. The identifiers
  are pairwise distinct whenever the random draws are.
\<close>

theorem C4_generate_success:
  fixes c :: "('n::zero) LineItem DocumentCreator"
  assumes "aiPrompt c \<noteq> []"
    and "map_of ps ''lineItems'' = Some (JArr xs)"
    and "map recordFields xs = map Some raws"
  shows "handleGenerateWithAI draws (Parses (JObj ps)) c
      = (Replaced (setLineItems
            (map (\<lambda>j. itemWithId (xs ! j) (newId (draws j))) [0..<length xs])
            (c\<lparr>isLoading := False\<rparr>)),
         [SetIsLoading True, GenerateContent (fullPrompt (type_st c) (aiPrompt c)),
          SetIsLoading False])
    \<and> map_prod typedDraft id (handleGenerateWithAI draws (Parses (JObj ps)) c)
      = (Some (c\<lparr>lineItems_st := map (\<lambda>j. withId (raws ! j) (newId (draws j))) [0..<length raws],
                 isLoading := False\<rparr>),
         [SetIsLoading True, GenerateContent (fullPrompt (type_st c) (aiPrompt c)),
          SetIsLoading False])
    \<and> ((\<forall>i < length raws. randomText (snd (draws i)))
          \<and> (\<forall>i < length raws. \<forall>j < length raws.
                i \<noteq> j \<longrightarrow> snd (draws i) \<noteq> snd (draws j))
        \<longrightarrow> distinct (map id_LineItem
              (map (\<lambda>j. withId (raws ! j) (newId (draws j))) [0..<length raws])))"
proof (intro conjI impI)
  let ?objects = "map (\<lambda>j. itemWithId (xs ! j) (newId (draws j))) [0..<length xs]"
  let ?items = "map (\<lambda>j. withId (raws ! j) (newId (draws j))) [0..<length raws]"
  have "tryBlock draws (Parses (JObj ps)) = SetLineItems ?objects"
    using assms(2) mapWithIds_index [of draws 0 xs] by (simp add: tryBlock_def)
  then show run: "handleGenerateWithAI draws (Parses (JObj ps)) c
      = (Replaced (setLineItems ?objects (c\<lparr>isLoading := False\<rparr>)),
         [SetIsLoading True, GenerateContent (fullPrompt (type_st c) (aiPrompt c)),
          SetIsLoading False])"
    using assms(1) by (simp add: handleGenerateWithAI_def)
  have len: "length xs = length raws"
    using assms(3) by (metis length_map)
  have "asLineItems (map (\<lambda>j. itemWithId (xs ! j) (newId (draws j))) [0..<length xs])
      = Some (map (\<lambda>j. withId (raws ! j) (newId (draws j))) [0..<length xs])"
  proof (rule asLineItems_map)
    fix j assume "j < length [0..<length xs]"
    then have j: "j < length xs" by simp
    then have "recordFields (xs ! j) = Some (raws ! j)"
      using assms(3) len by (metis nth_map)
    then show "asLineItem (itemWithId (xs ! ([0..<length xs] ! j)) (newId (draws ([0..<length xs] ! j))))
        = Some (withId (raws ! ([0..<length xs] ! j)) (newId (draws ([0..<length xs] ! j))))"
      using j by (simp add: asLineItem_itemWithId)
  qed
  then have "asLineItems ?objects = Some ?items"
    by (simp only: len)
  then have "typedDraft (Replaced (setLineItems ?objects (c\<lparr>isLoading := False\<rparr>)))
      = Some (c\<lparr>lineItems_st := ?items, isLoading := False\<rparr>)"
    by (simp add: typedDraft_def setLineItems_def)
  with run show "map_prod typedDraft id (handleGenerateWithAI draws (Parses (JObj ps)) c)
      = (Some (c\<lparr>lineItems_st := ?items, isLoading := False\<rparr>),
         [SetIsLoading True, GenerateContent (fullPrompt (type_st c) (aiPrompt c)),
          SetIsLoading False])"
    by simp
next
  assume h: "(\<forall>i < length raws. randomText (snd (draws i)))
          \<and> (\<forall>i < length raws. \<forall>j < length raws.
                i \<noteq> j \<longrightarrow> snd (draws i) \<noteq> snd (draws j))"
  have "map id_LineItem (map (\<lambda>j. withId (raws ! j) (newId (draws j))) [0..<length raws])
      = map (\<lambda>j. newId (draws j)) [0..<length raws]"
    by (simp add: withId_def split: prod.splits)
  moreover have "distinct (map (\<lambda>j. newId (draws j)) [0..<length raws])"
    using h by (intro newId_distinct) blast+
  ultimately show "distinct (map id_LineItem
              (map (\<lambda>j. withId (raws ! j) (newId (draws j))) [0..<length raws]))"
    by (simp only:)
qed

text \<open>
  C4 at the response with the two items Design and Hosting, with one clock reading
  and two different random draws.
\<close>

theorem C4_generate_success_witness:
  "handleGenerateWithAI (\<lambda>i. (1700000000000, if i = 0 then ''0.25'' else ''0.75''))
     (Parses (JObj [(''lineItems'', JArr example_items)])) example_draft
   = (Replaced
        \<lparr>type_st = Invoice, customerId_st = ''c1'',
         lineItems_st =
           [[(''description'', JStr ''Design''), (''quantity'', JNum 10), (''unitPrice'', JNum 50),
             (''id'', JStr ''17000000000000.25'')],
            [(''description'', JStr ''Hosting''), (''quantity'', JNum 1), (''unitPrice'', JNum 120),
             (''id'', JStr ''17000000000000.75'')]],
         aiPrompt = ''A website'', isLoading = False\<rparr>,
       [SetIsLoading True, GenerateContent (fullPrompt Invoice ''A website''),
        SetIsLoading False])
   \<and> map_prod typedDraft id
       (handleGenerateWithAI (\<lambda>i. (1700000000000, if i = 0 then ''0.25'' else ''0.75''))
         (Parses (JObj [(''lineItems'', JArr example_items)])) example_draft)
   = (Some (example_draft\<lparr>lineItems_st :=
         [\<lparr>id_LineItem = ''17000000000000.25'', description = ''Design'', quantity = 10,
            unitPrice = 50\<rparr>,
          \<lparr>id_LineItem = ''17000000000000.75'', description = ''Hosting'', quantity = 1,
            unitPrice = 120\<rparr>]\<rparr>),
       [SetIsLoading True, GenerateContent (fullPrompt Invoice ''A website''),
        SetIsLoading False])
   \<and> distinct [''17000000000000.25'', ''17000000000000.75'']"
proof -
  let ?draws = "\<lambda>i::nat. (1700000000000::nat, if i = 0 then ''0.25'' else ''0.75'')"
  let ?raws = "[(''Design'', 10, 50), (''Hosting'', 1, 120)] :: (string \<times> rat \<times> rat) list"
  have prompt: "aiPrompt example_draft \<noteq> []"
    by (simp add: example_draft_def)
  have arr: "map_of [(''lineItems'', JArr example_items)] ''lineItems'' = Some (JArr example_items)"
    by simp
  have recs: "map recordFields example_items = map Some ?raws"
    by (simp add: example_items_def)
  have wf: "\<forall>i < length ?raws. randomText (snd (?draws i))"
    by (simp add: isDigit_def)
  have rnd: "\<forall>i < length ?raws. \<forall>j < length ?raws.
      i \<noteq> j \<longrightarrow> snd (?draws i) \<noteq> snd (?draws j)"
    by (simp add: less_Suc_eq numeral_2_eq_2)
  note run = C4_generate_success [OF prompt arr recs, of ?draws]
  from run wf rnd
  have "distinct (map id_LineItem
      (map (\<lambda>j. withId (?raws ! j) (newId (?draws j))) [0..<length ?raws]))"
    by blast
  with run show ?thesis
    by (simp add: example_draft_def example_items_def setLineItems_def itemWithId_def
          setProperty_def newId_def withId_def typedDraft_def asLineItem_def
          toString.simps digit_def upt_conv_Cons)
qed

text \<open>
  C4 as the specification states it fails when \<^verbatim>\<open>Math.random()\<close> returns the same
  number for both items within one millisecond: both get the same identifier.
\<close>

theorem C4_counterexample:
  "map_option (\<lambda>c'. map id_LineItem (lineItems_st c'))
     (typedDraft (fst (handleGenerateWithAI (\<lambda>i. (1700000000000, ''0.5''))
        (Parses (JObj [(''lineItems'', JArr example_items)])) example_draft)))
   = Some [''17000000000000.5'', ''17000000000000.5'']"
  by (simp add: handleGenerateWithAI_def tryBlock_def example_items_def example_draft_def
        typedDraft_def asLineItem_def setLineItems_def itemWithId_def setProperty_def
        newId_def toString.simps digit_def)

text \<open>
  C5. \<^verbatim>\<open>addCustomer\<close> is \<^verbatim>\<open>handleSubmit\<close>. With an empty name or an empty email it
  returns the form and the application as they were, with no effect at all: no alert, no
  log. Otherwise the customers collection is the old one followed by exactly one new
  customer, with the identifier drawn from the clock at the call and the name, email and
  address of the form; documents and active view stay.
\<close>

theorem C5_addCustomer:
  fixes app :: "'n App"
  shows "(name_st form = [] \<or> email_st form = [] \<longrightarrow>
            handleSubmit encode now form app = (form, app, []))
       \<and> (name_st form \<noteq> [] \<and> email_st form \<noteq> [] \<longrightarrow>
            customers (fst (snd (handleSubmit encode now form app)))
              = customers app @
                  [\<lparr>id_Customer = toString now, name = name_st form,
                    email = email_st form, address = address_st form\<rparr>]
          \<and> documents (fst (snd (handleSubmit encode now form app))) = documents app
          \<and> activeView (fst (snd (handleSubmit encode now form app))) = activeView app
          \<and> userVisibleErrors (snd (snd (handleSubmit encode now form app))) = [])"
  by (simp add: handleSubmit_def setCustomers_def setValue_def setItem_def
        userVisibleErrors_def Let_def split: prod.splits sum.splits)

text \<open>
  C5 at a form with an empty name and at a form with a name and an email.
\<close>

theorem C5_addCustomer_witness:
  "handleSubmit example_encode 1700000000000
       \<lparr>name_st = [], email_st = ''a@b.com'', address_st = []\<rparr> example_app
     = (\<lparr>name_st = [], email_st = ''a@b.com'', address_st = []\<rparr>, example_app, [])
   \<and> customers (fst (snd (handleSubmit example_encode 1700000000000
        \<lparr>name_st = ''Bob'', email_st = ''a@b.com'', address_st = []\<rparr> example_app)))
     = [example_customer,
        \<lparr>id_Customer = ''1700000000000'', name = ''Bob'', email = ''a@b.com'', address = []\<rparr>]"
  using C5_addCustomer [of "\<lparr>name_st = [], email_st = ''a@b.com'', address_st = []\<rparr>"
      example_encode 1700000000000 example_app]
    C5_addCustomer [of "\<lparr>name_st = ''Bob'', email_st = ''a@b.com'', address_st = []\<rparr>"
      example_encode 1700000000000 example_app]
  by (simp add: example_app_def toString.simps digit_def)

text \<open>
  C6. The read of the storage container returns a value in every case, so nothing is
  thrown to the caller: the parsed value when the store holds a string under the key and
  the string parses; the initial value when the key is absent, when the string does not
  parse, and when the store cannot be read.
\<close>

theorem C6_read:
  "(getItem ls key = Inr (Some s) \<and> JSON_parse decode s = Inr v \<longrightarrow>
      fst (useLocalStorage_init decode ls key initialValue) = v)
   \<and> (getItem ls key = Inr None \<longrightarrow>
      fst (useLocalStorage_init decode ls key initialValue) = initialValue)
   \<and> (getItem ls key = Inr (Some s) \<and> JSON_parse decode s = Inl e \<longrightarrow>
      fst (useLocalStorage_init decode ls key initialValue) = initialValue)
   \<and> (getItem ls key = Inl e \<longrightarrow>
      fst (useLocalStorage_init decode ls key initialValue) = initialValue)"
  by (auto simp add: useLocalStorage_init_def JSON_parse_def split: option.splits)

text \<open>
  C6 at a store that holds the text of the empty collection, at the empty store, at a
  store that holds a text the reader rejects, and at a store that denies access.
\<close>

theorem C6_read_witness:
  "fst (useLocalStorage_init example_decode
       (example_storage\<lparr>entries := [''gendocs_customers'' \<mapsto> ''[]'']\<rparr>)
       ''gendocs_customers'' [example_customer]) = []
   \<and> fst (useLocalStorage_init example_decode example_storage
       ''gendocs_customers'' [example_customer]) = [example_customer]
   \<and> fst (useLocalStorage_init example_decode
       (example_storage\<lparr>entries := [''gendocs_customers'' \<mapsto> ''[{'']\<rparr>)
       ''gendocs_customers'' [example_customer]) = [example_customer]
   \<and> fst (useLocalStorage_init example_decode
       (example_storage\<lparr>denied := True\<rparr>)
       ''gendocs_customers'' [example_customer]) = [example_customer]"
  using C6_read [of "example_storage\<lparr>entries := [''gendocs_customers'' \<mapsto> ''[]'']\<rparr>"
      "''gendocs_customers''" "''[]''" example_decode "[]" "[example_customer]"]
    C6_read [of example_storage "''gendocs_customers''" _ example_decode _ "[example_customer]"]
    C6_read [of "example_storage\<lparr>entries := [''gendocs_customers'' \<mapsto> ''[{'']\<rparr>"
      "''gendocs_customers''" "''[{''" example_decode _ "[example_customer]" SyntaxError]
    C6_read [of "example_storage\<lparr>denied := True\<rparr>"
      "''gendocs_customers''" _ example_decode _ "[example_customer]" SecurityError]
  by (simp add: getItem_def JSON_parse_def example_decode_def example_storage_def)

text \<open>
  C7, as amended. When the store can be used and accepts the write, writing a value
  under a key with \<^verbatim>\<open>setValue\<close>, as a value or through an update function, makes it the
  stored value, puts its JSON text under the key and logs nothing, and reading the key
  back with any initial value yields the value. This holds for every JSON value in which
  each number has a text that is a JSON number and is read as that number. A collection
  of customers holds no number: it is read back as the array of its customers, element
  for element in the same order, and two collections with the same array are the same
  collection.
\<close>

theorem C7_round_trip:
  assumes "\<not> denied ls" and "\<not> full ls"
  shows "(readsBack nt rn v \<longrightarrow>
            setValue (stringify nt) key (Value v) old ls
              = (v, ls\<lparr>entries := (entries ls)(key \<mapsto> stringify nt v)\<rparr>, [])
          \<and> useLocalStorage_init (decodeJSON rn)
               (fst (snd (setValue (stringify nt) key (Value v) old ls))) key initialValue
              = (v, []))
       \<and> (readsBack nt rn (f old) \<longrightarrow>
            setValue (stringify nt) key (Updater f) old ls
              = (f old, ls\<lparr>entries := (entries ls)(key \<mapsto> stringify nt (f old))\<rparr>, [])
          \<and> useLocalStorage_init (decodeJSON rn)
               (fst (snd (setValue (stringify nt) key (Updater f) old ls))) key initialValue
              = (f old, []))
       \<and> useLocalStorage_init (decodeJSON rn)
            (fst (snd (setValue (stringify nt) key (Value (json_of_customers cs)) old ls)))
            key initialValue
           = (JArr (map json_of_customer cs), [])
       \<and> (json_of_customers cs = json_of_customers cs' \<longrightarrow> cs = cs')"
proof -
  have set: "setValue (stringify nt) key (Value w) old ls
      = (w, ls\<lparr>entries := (entries ls)(key \<mapsto> stringify nt w)\<rparr>, [])" for w
    using assms by (simp add: setValue_def setItem_def)
  have upd: "setValue (stringify nt) key (Updater f) old ls
      = (f old, ls\<lparr>entries := (entries ls)(key \<mapsto> stringify nt (f old))\<rparr>, [])"
    using assms by (simp add: setValue_def setItem_def Let_def)
  have read: "readsBack nt rn w \<Longrightarrow> useLocalStorage_init (decodeJSON rn)
      (ls\<lparr>entries := (entries ls)(key \<mapsto> stringify nt w)\<rparr>) key initialValue = (w, [])" for w
    using assms by (rule write_then_read)
  have "useLocalStorage_init (decodeJSON rn)
      (ls\<lparr>entries := (entries ls)(key \<mapsto> stringify nt (json_of_customers cs))\<rparr>) key initialValue
      = (JArr (map json_of_customer cs), [])"
    using read [OF readsBack_customers [of nt rn cs]] by (simp add: json_of_customers_def)
  then show ?thesis
    using read [of v] read [of "f old"] json_of_customers_inj [of cs cs']
    by (simp only: set upd fst_conv snd_conv) blast
qed

text \<open>
  C7 at the empty example store: a collection of three customers, in whose names and
  addresses there are quotation marks, a line feed and a backslash; a collection with
  one document whose quantities and unit prices are natural numbers, written in decimal
  digits and read from them; and that collection with the document appended once more
  by an update function.
\<close>

theorem C7_round_trip_witness:
  "useLocalStorage_init (decodeJSON readDigits)
     (fst (snd (setValue (stringify toString) ''gendocs_customers''
        (Value (json_of_customers example_customers)) (JArr []) example_storage)))
     ''gendocs_customers'' (JArr [])
    = (JArr [JObj [(''id'', JStr ''c2''), (''name'', JStr [CHR ''G'', CHR 0x22, CHR ''H'', CHR 0x22]),
                   (''email'', JStr ''grace@example.org''),
                   (''address'', JStr [CHR ''1'', CHR 0x0A, CHR ''2''])],
             JObj [(''id'', JStr ''c1''), (''name'', JStr ''Ada''),
                   (''email'', JStr ''ada@example.org''), (''address'', JStr [])],
             JObj [(''id'', JStr ''c3''), (''name'', JStr ''Ada''),
                   (''email'', JStr ''ada@example.org''), (''address'', JStr [CHR 0x5C])]], [])
   \<and> useLocalStorage_init (decodeJSON readDigits)
       (fst (snd (setValue (stringify toString) ''gendocs_documents''
          (Value (JArr [example_document])) (JArr []) example_storage)))
       ''gendocs_documents'' (JArr [])
      = (JArr [example_document], [])
   \<and> useLocalStorage_init (decodeJSON readDigits)
       (fst (snd (setValue (stringify toString) ''gendocs_documents''
          (Updater (\<lambda>prev. case prev of JArr ds \<Rightarrow> JArr (ds @ [example_document]) | other \<Rightarrow> other))
          (JArr [example_document]) example_storage)))
       ''gendocs_documents'' (JArr [])
      = (JArr [example_document, example_document], [])"
proof -
  have ok: "\<not> denied example_storage" "\<not> full example_storage"
    by (simp_all add: example_storage_def)
  have digits: "toString 0 = ''0''" "toString 10 = ''10''" "toString 50 = ''50''"
    "toString 120 = ''120''"
    by (simp_all add: toString.simps digit_def)
  have numbers: "readsBack toString readDigits (JNum 0)" "readsBack toString readDigits (JNum 10)"
    "readsBack toString readDigits (JNum 50)" "readsBack toString readDigits (JNum 120)"
    by (simp_all add: digits isNumberText_def fractionPart_def exponentPart_def numChar_def
          isDigit_def readDigits_def)
  have doc: "readsBack toString readDigits example_document"
    using numbers by (simp add: example_document_def)
  have docs: "readsBack toString readDigits (JArr [example_document])"
    using doc by simp
  have appended: "readsBack toString readDigits
      (case JArr [example_document] of JArr ds \<Rightarrow> JArr (ds @ [example_document])
       | other \<Rightarrow> other)"
    using doc by simp
  have customers:
    "useLocalStorage_init (decodeJSON readDigits)
       (fst (snd (setValue (stringify toString) ''gendocs_customers''
          (Value (json_of_customers example_customers)) (JArr []) example_storage)))
       ''gendocs_customers'' (JArr [])
      = (JArr (map json_of_customer example_customers), [])"
    using C7_round_trip [OF ok, where nt = toString and rn = readDigits
        and key = "''gendocs_customers''" and cs = example_customers and old = "JArr []"
        and initialValue = "JArr []" and v = JNull and f = "\<lambda>prev. prev" and cs' = "[]"]
    by blast
  have documents:
    "useLocalStorage_init (decodeJSON readDigits)
       (fst (snd (setValue (stringify toString) ''gendocs_documents''
          (Value (JArr [example_document])) (JArr []) example_storage)))
       ''gendocs_documents'' (JArr [])
      = (JArr [example_document], [])"
    using C7_round_trip [OF ok, where nt = toString and rn = readDigits
        and key = "''gendocs_documents''" and v = "JArr [example_document]" and old = "JArr []"
        and initialValue = "JArr []" and f = "\<lambda>prev. prev" and cs = "[]" and cs' = "[]"] docs
    by blast
  have updated:
    "useLocalStorage_init (decodeJSON readDigits)
       (fst (snd (setValue (stringify toString) ''gendocs_documents''
          (Updater (\<lambda>prev. case prev of JArr ds \<Rightarrow> JArr (ds @ [example_document]) | other \<Rightarrow> other))
          (JArr [example_document]) example_storage)))
       ''gendocs_documents'' (JArr [])
      = (case JArr [example_document] of JArr ds \<Rightarrow> JArr (ds @ [example_document])
         | other \<Rightarrow> other, [])"
    using C7_round_trip [OF ok, where nt = toString and rn = readDigits
        and key = "''gendocs_documents''" and old = "JArr [example_document]"
        and f = "\<lambda>prev. case prev of JArr ds \<Rightarrow> JArr (ds @ [example_document]) | other \<Rightarrow> other"
        and initialValue = "JArr []" and v = JNull and cs = "[]" and cs' = "[]"] appended
    by blast
  show ?thesis
    using customers documents updated
    by (simp add: example_customers_def example_customer_def json_of_customer_def)
qed

text \<open>
  C7 as the specification states it fails at a store that refuses the write because the
  quota is used up: reading the key back yields the initial value, here the empty
  collection, and not the three customers written. It also fails at a store that
  accepts the write for a collection that holds a number that is not finite: the number
  is written as \<^verbatim>\<open>null\<close> and read back as \<^verbatim>\<open>null\<close>, whatever the texts of the finite
  numbers are.
\<close>

theorem C7_counterexample:
  "useLocalStorage_init (decodeJSON readDigits)
     (fst (snd (setValue (stringify toString) ''gendocs_customers''
        (Value (json_of_customers example_customers)) (JArr [])
        (example_storage\<lparr>full := True\<rparr>))))
     ''gendocs_customers'' (JArr [])
    = (JArr [], [])
   \<and> json_of_customers example_customers \<noteq> (JArr [] :: nat json)
   \<and> (\<forall>finiteText (rn :: string \<Rightarrow> double).
        useLocalStorage_init (decodeJSON rn)
          (fst (snd (setValue (stringify (numberText finiteText)) ''gendocs_documents''
             (Value (JArr [JObj [(''id'', JStr ''a''), (''quantity'', JNum PosInf)]])) (JArr [])
             example_storage)))
          ''gendocs_documents'' (JArr [])
         = (JArr [JObj [(''id'', JStr ''a''), (''quantity'', JNull)]], []))"
proof -
  have refused: "useLocalStorage_init (decodeJSON readDigits)
     (fst (snd (setValue (stringify toString) ''gendocs_customers''
        (Value (json_of_customers example_customers)) (JArr [])
        (example_storage\<lparr>full := True\<rparr>))))
     ''gendocs_customers'' (JArr [])
    = (JArr [], [])"
    by (simp add: setValue_def setItem_def useLocalStorage_init_def getItem_def
          example_storage_def)
  have differs: "json_of_customers example_customers \<noteq> (JArr [] :: nat json)"
    by (simp add: json_of_customers_def example_customers_def)
  have written: "useLocalStorage_init (decodeJSON rn)
          (fst (snd (setValue (stringify (numberText finiteText)) ''gendocs_documents''
             (Value (JArr [JObj [(''id'', JStr ''a''), (''quantity'', JNum PosInf)]])) (JArr [])
             example_storage)))
          ''gendocs_documents'' (JArr [])
         = (JArr [JObj [(''id'', JStr ''a''), (''quantity'', JNull)]], [])"
    for finiteText and rn :: "string \<Rightarrow> double"
  proof -
    let ?nt = "numberText finiteText"
    let ?read = "JArr [JObj [(''id'', JStr ''a''), (''quantity'', JNull)]] :: double json"
    have same: "stringify ?nt (JArr [JObj [(''id'', JStr ''a''), (''quantity'', JNum PosInf)]])
        = stringify ?nt ?read"
      by (simp add: numberText_def)
    have "readsBack ?nt rn ?read" by simp
    then have "useLocalStorage_init (decodeJSON rn)
        (example_storage\<lparr>entries := (entries example_storage)(''gendocs_documents'' \<mapsto>
           stringify ?nt ?read)\<rparr>) ''gendocs_documents'' (JArr []) = (?read, [])"
      by (intro write_then_read) (simp_all add: example_storage_def)
    then show ?thesis
      unfolding same [symmetric]
      by (simp add: setValue_def setItem_def example_storage_def)
  qed
  show ?thesis
    apply (intro conjI allI)
      apply (rule refused)
     apply (rule differs)
    apply (rule written)
    done
qed

text \<open>
  C8. \<^verbatim>\<open>updateLineItem\<close> keeps the length of the sequence and the rest of the draft. At
  every position the identifier stays; an item with another identifier stays as it is;
  an item with the given identifier is the old item with the named field replaced, so its
  other fields stay.
\<close>

theorem C8_updateLineItem:
  fixes c :: "'n LineItem DocumentCreator"
  shows "length (lineItems_st (updateLineItem ident fv c)) = length (lineItems_st c)
    \<and> type_st (updateLineItem ident fv c) = type_st c
    \<and> customerId_st (updateLineItem ident fv c) = customerId_st c
    \<and> aiPrompt (updateLineItem ident fv c) = aiPrompt c
    \<and> isLoading (updateLineItem ident fv c) = isLoading c
    \<and> (\<forall>i < length (lineItems_st c).
          id_LineItem (lineItems_st (updateLineItem ident fv c) ! i) = id_LineItem (lineItems_st c ! i)
        \<and> (id_LineItem (lineItems_st c ! i) \<noteq> ident \<longrightarrow>
              lineItems_st (updateLineItem ident fv c) ! i = lineItems_st c ! i)
        \<and> (id_LineItem (lineItems_st c ! i) = ident \<longrightarrow>
              (case fv of
                 Description s \<Rightarrow>
                   lineItems_st (updateLineItem ident fv c) ! i = (lineItems_st c ! i)\<lparr>description := s\<rparr>
               | Quantity q \<Rightarrow>
                   lineItems_st (updateLineItem ident fv c) ! i = (lineItems_st c ! i)\<lparr>quantity := q\<rparr>
               | UnitPrice u \<Rightarrow>
                   lineItems_st (updateLineItem ident fv c) ! i = (lineItems_st c ! i)\<lparr>unitPrice := u\<rparr>)))"
  by (cases fv) (simp_all add: updateLineItem_def)

text \<open>
  C8 at a draft with two line items, of which the second gets a new quantity.
\<close>

theorem C8_updateLineItem_witness:
  "lineItems_st (updateLineItem ''b'' (Quantity 3)
      (example_draft\<lparr>lineItems_st :=
         [\<lparr>id_LineItem = ''a'', description = ''X'', quantity = 1, unitPrice = 100\<rparr>,
          \<lparr>id_LineItem = ''b'', description = ''Y'', quantity = 2, unitPrice = 5 / 2\<rparr>]\<rparr>))
   = [\<lparr>id_LineItem = ''a'', description = ''X'', quantity = 1, unitPrice = 100\<rparr>,
      \<lparr>id_LineItem = ''b'', description = ''Y'', quantity = 3, unitPrice = 5 / 2\<rparr>]"
  using C8_updateLineItem [of "''b''" "Quantity 3"
      "example_draft\<lparr>lineItems_st :=
         [\<lparr>id_LineItem = ''a'', description = ''X'', quantity = 1, unitPrice = 100\<rparr>,
          \<lparr>id_LineItem = ''b'', description = ''Y'', quantity = 2, unitPrice = 5 / 2\<rparr>]\<rparr>"]
  by (simp add: updateLineItem_def)

text \<open>
  C9. On the initial draft with the first customer selected, two calls of \<^verbatim>\<open>addLineItem\<close>
  within one millisecond give both new line items the same identifier, and
  \<^verbatim>\<open>saveDocument\<close> saves the draft as it is: the one saved document has two line items
  with the identifier 1700000000000.
\<close>

theorem C9_duplicate_identifiers:
  "map (\<lambda>d. map id_LineItem (lineItems d))
     (documents (fst (saveDocument (\<lambda>ds. ''[]'') 1700000000500 ''2023-11-14T22:13:20.500Z''
        (addLineItem 1700000000000 (addLineItem 1700000000000
           (selectDefaultCustomer (customers example_app) DocumentCreator_init)))
        example_app)))
   = [[''1700000000000'', ''1700000000000'']]"
  by (simp add: saveDocument_def setDocuments_def setValue_def setItem_def setActiveView_def
        addLineItem_def selectDefaultCustomer_def DocumentCreator_init_def example_app_def
        example_customer_def example_storage_def toString.simps digit_def Let_def)

text \<open>
  C10. With an empty prompt \<^verbatim>\<open>handleGenerateWithAI\<close> returns the draft as it was, line
  items and \<^verbatim>\<open>isLoading\<close> included, and has no effect: no request is sent and
  \<^verbatim>\<open>setIsLoading\<close> is not called.
\<close>

theorem C10_empty_prompt:
  "aiPrompt c = [] \<Longrightarrow> handleGenerateWithAI draws response c = (Kept c, [])"
  by (simp add: handleGenerateWithAI_def)

text \<open>
  C10 at the example draft with its prompt cleared.
\<close>

theorem C10_empty_prompt_witness:
  "handleGenerateWithAI (\<lambda>i. (1700000000000, ''0.5''))
       (Parses (JObj [(''lineItems'', JArr example_items)])) (example_draft\<lparr>aiPrompt := []\<rparr>)
     = (Kept (example_draft\<lparr>aiPrompt := []\<rparr>), [])"
  using C10_empty_prompt [of "example_draft\<lparr>aiPrompt := []\<rparr>" "\<lambda>i. (1700000000000, ''0.5'')"
      "Parses (JObj [(''lineItems'', JArr example_items)])"]
  by simp

end
